theory Spec2Isabelle
  imports Complex_Main "HOL-Library.Log_Nat"
begin

section \<open>Numbers\<close>

text \<open>
  A TypeScript \<open>number\<close> is an IEEE-754 binary64 value.  The finite ones are real numbers;
  the model carries them as reals and rounds the exact result of every arithmetic operation
  to the nearest binary64 value, ties to even, as the hardware does.

  \<open>expo x\<close> is the exponent \<open>e\<close> with \<open>2^e \<le> x < 2^(e+1)\<close> of a positive real,
  \<open>rne\<close> rounds a real to the nearest integer, ties to the even one, and \<open>fl\<close> rounds a
  real to 53 significant bits, with the fixed spacing \<open>2^-1074\<close> below \<open>2^-1022\<close>
  (the subnormal numbers).  The two zeros of binary64 are not distinguished.
\<close>

definition expo :: "real \<Rightarrow> int" where
  "expo x = (if 1 \<le> x then bitlen \<lfloor>x\<rfloor> - 1 else - bitlen (\<lceil>1 / x\<rceil> - 1))"

definition rne :: "real \<Rightarrow> int" where
  "rne r =
     (let f = \<lfloor>r\<rfloor>
      in if r - of_int f < 1 / 2 then f
         else if 1 / 2 < r - of_int f then f + 1
         else if even f then f else f + 1)"

definition binade :: "real \<Rightarrow> int" where
  "binade x = max (expo \<bar>x\<bar>) (- 1022)"

definition fl :: "real \<Rightarrow> real" where
  "fl x =
     (if x = 0 then 0
      else of_int (rne (x / 2 powi (binade x - 52))) * 2 powi (binade x - 52))"

text \<open>
  A value of type \<open>number\<close>: a finite binary64 value, one of the infinities, or NaN.
  \<open>rounded r\<close> is the result of an operation whose exact result is \<open>r\<close>: the nearest
  binary64 value, or an infinity when that rounding reaches \<open>2^1024\<close>.
\<close>

datatype double = Finite real | PInf | NInf | NaN

definition rounded :: "real \<Rightarrow> double" where
  "rounded r =
     (if 2 ^ 1024 \<le> \<bar>fl r\<bar> then (if 0 < r then PInf else NInf) else Finite (fl r))"

text \<open>A decimal literal of the source denotes the binary64 value nearest to it.\<close>

definition lit :: "real \<Rightarrow> double" where
  "lit x = rounded x"

fun is_neg :: "double \<Rightarrow> bool" where
  "is_neg (Finite a) = (a < 0)"
| "is_neg NInf = True"
| "is_neg PInf = False"
| "is_neg NaN = False"

text \<open>The operators \<open>+\<close>, \<open>-\<close>, \<open>*\<close> and \<open>/\<close> on numbers.\<close>

fun jadd :: "double \<Rightarrow> double \<Rightarrow> double" where
  "jadd (Finite a) (Finite b) = rounded (a + b)"
| "jadd NaN y = NaN"
| "jadd x NaN = NaN"
| "jadd PInf NInf = NaN"
| "jadd NInf PInf = NaN"
| "jadd PInf y = PInf"
| "jadd x PInf = PInf"
| "jadd NInf y = NInf"
| "jadd x NInf = NInf"

fun jsub :: "double \<Rightarrow> double \<Rightarrow> double" where
  "jsub (Finite a) (Finite b) = rounded (a - b)"
| "jsub NaN y = NaN"
| "jsub x NaN = NaN"
| "jsub PInf PInf = NaN"
| "jsub NInf NInf = NaN"
| "jsub PInf y = PInf"
| "jsub x NInf = PInf"
| "jsub NInf y = NInf"
| "jsub x PInf = NInf"

fun jmul :: "double \<Rightarrow> double \<Rightarrow> double" where
  "jmul (Finite a) (Finite b) = rounded (a * b)"
| "jmul NaN y = NaN"
| "jmul x NaN = NaN"
| "jmul x y =
     (if x = Finite 0 \<or> y = Finite 0 then NaN
      else if is_neg x = is_neg y then PInf else NInf)"

text \<open>
  Division; a zero divisor is taken as the positive zero.  The code divides by the
  literal \<open>12\<close> only.
\<close>

fun jdiv :: "double \<Rightarrow> double \<Rightarrow> double" where
  "jdiv (Finite a) (Finite b) =
     (if b = 0 then (if a = 0 then NaN else if 0 < a then PInf else NInf)
      else rounded (a / b))"
| "jdiv NaN y = NaN"
| "jdiv x NaN = NaN"
| "jdiv (Finite a) y = Finite 0"
| "jdiv x (Finite b) = (if is_neg x = (b < 0) then PInf else NInf)"
| "jdiv x y = NaN"

text \<open>The comparison \<open>x <= y\<close>; it is false when an operand is NaN.\<close>

fun jle :: "double \<Rightarrow> double \<Rightarrow> bool" where
  "jle (Finite a) (Finite b) = (a \<le> b)"
| "jle NaN y = False"
| "jle x NaN = False"
| "jle NInf y = True"
| "jle x PInf = True"
| "jle x y = False"

text \<open>
  \<open>Math.min\<close> and \<open>Math.max\<close> of two numbers are NaN when an argument is NaN.
  \<open>Math.round\<close> returns the integer closest to its argument, the larger one on a tie;
  for a finite binary64 argument that integer, \<open>\<lfloor>x + 1/2\<rfloor>\<close>, is again a binary64 value.
\<close>

definition Math_min :: "double \<Rightarrow> double \<Rightarrow> double" where
  "Math_min a b = (if a = NaN \<or> b = NaN then NaN else if jle a b then a else b)"

definition Math_max :: "double \<Rightarrow> double \<Rightarrow> double" where
  "Math_max a b = (if a = NaN \<or> b = NaN then NaN else if jle a b then b else a)"

fun Math_round :: "double \<Rightarrow> double" where
  "Math_round (Finite x) = Finite (of_int \<lfloor>x + 1 / 2\<rfloor>)"
| "Math_round x = x"

section \<open>Data model (src/types/governance.ts)\<close>

text \<open>
  The numeric fields of a metrics record hold finite numbers: the real \<open>x\<close> of a field is
  the number \<open>Finite x\<close>.
\<close>

record DAOMetrics =
  name :: string
  symbol :: string
  totalProposals :: real
  activeProposals :: real
  avgVoterTurnout :: real
  tokenConcentration :: real
  delegateActivity :: real
  proposalSuccessRate :: real
  avgProposalDuration :: real
  treasuryHealth :: real
  communityEngagement :: real

datatype RiskType = HIGH | MEDIUM | LOW

record Risk =
  type :: RiskType
  category :: string
  description :: string
  impact :: string
  mitigation :: string

text \<open>The object literal returned by \<open>calculateCategoryScores\<close>.\<close>

record CategoryScores =
  participation :: double
  decentralization :: double
  activity :: double
  transparency :: double
  stability :: double

text \<open>
  \<open>Object.entries\<close> of that object: its own properties in insertion order, which is the
  order of the literal.
\<close>

definition Object_entries :: "CategoryScores \<Rightarrow> (string \<times> double) list" where
  "Object_entries cs =
     [(''participation'', participation cs),
      (''decentralization'', decentralization cs),
      (''activity'', activity cs),
      (''transparency'', transparency cs),
      (''stability'', stability cs)]"

section \<open>HealthScorer (src/analyzers/health-scorer.ts)\<close>

definition calculateParticipationScore :: "DAOMetrics \<Rightarrow> double" where
  "calculateParticipationScore metrics =
     (let turnoutScore = Math_min (lit 100) (jmul (Finite (avgVoterTurnout metrics)) (lit 2));
          delegateScore = Math_min (lit 100) (Finite (delegateActivity metrics));
          engagementScore = Math_min (lit 100) (Finite (communityEngagement metrics))
      in Math_round
           (jadd (jadd (jmul turnoutScore (lit 0.4)) (jmul delegateScore (lit 0.3)))
              (jmul engagementScore (lit 0.3))))"

definition calculateDecentralizationScore :: "DAOMetrics \<Rightarrow> double" where
  "calculateDecentralizationScore metrics =
     (let concentrationScore =
            Math_max (lit 0) (jsub (lit 100) (Finite (tokenConcentration metrics)));
          delegateDistributionScore = Math_min (lit 100) (Finite (delegateActivity metrics))
      in Math_round
           (jadd (jmul concentrationScore (lit 0.7)) (jmul delegateDistributionScore (lit 0.3))))"

definition calculateActivityScore :: "DAOMetrics \<Rightarrow> double" where
  "calculateActivityScore metrics =
     (let proposalActivityScore =
            Math_min (lit 100) (jmul (jdiv (Finite (totalProposals metrics)) (lit 12)) (lit 20));
          activeProposalsScore =
            Math_min (lit 100) (jmul (Finite (activeProposals metrics)) (lit 25));
          successRateScore = Finite (proposalSuccessRate metrics)
      in Math_round
           (jadd (jadd (jmul proposalActivityScore (lit 0.4)) (jmul activeProposalsScore (lit 0.3)))
              (jmul successRateScore (lit 0.3))))"

definition calculateTransparencyScore :: "DAOMetrics \<Rightarrow> double" where
  "calculateTransparencyScore metrics =
     (let proposalScore = (if totalProposals metrics > 10 then lit 80 else lit 50);
          durationScore = (if avgProposalDuration metrics > 3 then lit 70 else lit 40)
      in Math_round (jadd (jmul proposalScore (lit 0.6)) (jmul durationScore (lit 0.4))))"

definition calculateStabilityScore :: "DAOMetrics \<Rightarrow> double" where
  "calculateStabilityScore metrics =
     (let successRateScore = Finite (proposalSuccessRate metrics);
          treasuryScore = Finite (treasuryHealth metrics);
          durationScore = Math_min (lit 100) (jmul (Finite (avgProposalDuration metrics)) (lit 10))
      in Math_round
           (jadd (jadd (jmul successRateScore (lit 0.4)) (jmul treasuryScore (lit 0.3)))
              (jmul durationScore (lit 0.3))))"

definition calculateCategoryScores :: "DAOMetrics \<Rightarrow> CategoryScores" where
  "calculateCategoryScores metrics =
     \<lparr> participation = calculateParticipationScore metrics,
       decentralization = calculateDecentralizationScore metrics,
       activity = calculateActivityScore metrics,
       transparency = calculateTransparencyScore metrics,
       stability = calculateStabilityScore metrics \<rparr>"

text \<open>
  \<open>calculateOverallScore\<close> takes any object.  The model takes the object's entries (key and
  numeric value, in the order \<open>Object.entries\<close> lists them).  A key without a weight makes
  the product \<open>score * undefined\<close>, which is NaN.
\<close>

definition weights :: "string \<Rightarrow> double option" where
  "weights = map_of
     [(''participation'', lit 0.25),
      (''decentralization'', lit 0.25),
      (''activity'', lit 0.20),
      (''transparency'', lit 0.15),
      (''stability'', lit 0.15)]"

fun reduce :: "(double \<Rightarrow> string \<times> double \<Rightarrow> double) \<Rightarrow> (string \<times> double) list
    \<Rightarrow> double \<Rightarrow> double" where
  "reduce f [] tot = tot"
| "reduce f (e # es) tot = reduce f es (f tot e)"

definition weighted_add :: "double \<Rightarrow> string \<times> double \<Rightarrow> double" where
  "weighted_add tot e =
     jadd tot (case weights (fst e) of Some w \<Rightarrow> jmul (snd e) w | None \<Rightarrow> NaN)"

definition calculateOverallScore :: "(string \<times> double) list \<Rightarrow> double" where
  "calculateOverallScore categoryScores =
     Math_round (reduce weighted_add categoryScores (lit 0))"

section \<open>RiskDetector (src/analyzers/risk-detector.ts)\<close>

definition push :: "'a list \<Rightarrow> 'a \<Rightarrow> 'a list" where
  "push xs x = xs @ [x]"

definition participation_risk :: Risk where
  "participation_risk =
     \<lparr> type = HIGH,
       category = ''Participation'',
       description = ''Extremely low voter turnout indicates governance apathy'',
       impact = ''Decisions may not represent community consensus'',
       mitigation = ''Implement voter incentives and education programs'' \<rparr>"

definition centralization_risk :: Risk where
  "centralization_risk =
     \<lparr> type = HIGH,
       category = ''Centralization'',
       description = ''High token concentration among few holders'',
       impact = ''Risk of governance capture and manipulation'',
       mitigation = ''Encourage token distribution and delegate diversity'' \<rparr>"

definition activity_risk :: Risk where
  "activity_risk =
     \<lparr> type = MEDIUM,
       category = ''Activity'',
       description = ''Low governance activity may indicate disengagement'',
       impact = ''Important decisions may be delayed or ignored'',
       mitigation = ''Stimulate governance participation with clear processes'' \<rparr>"

definition stability_risk :: Risk where
  "stability_risk =
     \<lparr> type = HIGH,
       category = ''Stability'',
       description = ''Very low proposal success rate indicates governance dysfunction'',
       impact = ''Inability to make necessary protocol changes'',
       mitigation = ''Review proposal processes and consensus mechanisms'' \<rparr>"

definition delegation_risk :: Risk where
  "delegation_risk =
     \<lparr> type = MEDIUM,
       category = ''Delegation'',
       description = ''Low delegate activity may create governance bottlenecks'',
       impact = ''Reduced governance efficiency and representation'',
       mitigation = ''Implement delegate accountability and incentive systems'' \<rparr>"

text \<open>
  The local array \<open>risks\<close> is threaded through the five \<open>if\<close> statements.  The second
  parameter (\<open>categoryScores: any\<close>) is never read.
\<close>

definition identifyRisks :: "DAOMetrics \<Rightarrow> 'a \<Rightarrow> Risk list" where
  "identifyRisks metrics categoryScores =
     (let risks = [];
          risks = (if avgVoterTurnout metrics < 10 then push risks participation_risk
                   else risks);
          risks = (if tokenConcentration metrics > 70 then push risks centralization_risk
                   else risks);
          risks = (if totalProposals metrics < 5 then push risks activity_risk
                   else risks);
          risks = (if proposalSuccessRate metrics < 30 then push risks stability_risk
                   else risks);
          risks = (if delegateActivity metrics < 20 then push risks delegation_risk
                   else risks)
      in risks)"

section \<open>GovernanceAnalyzer (src/analyzers/governance-analyzer.ts)\<close>

definition generateRecommendations :: "DAOMetrics \<Rightarrow> Risk list \<Rightarrow> string list" where
  "generateRecommendations metrics risks =
     (let recommendations = [];
          recommendations =
            (if avgVoterTurnout metrics < 20
             then push recommendations
               ''Consider implementing voter incentive programs to increase participation''
             else recommendations);
          recommendations =
            (if tokenConcentration metrics > 50
             then push recommendations
               ''Token distribution is concentrated - diversification would improve governance health''
             else recommendations);
          recommendations =
            (if delegateActivity metrics < 30
             then push recommendations
               ''Delegate engagement is low - consider delegate recognition programs''
             else recommendations);
          recommendations =
            (if length (filter (\<lambda>r. type r = HIGH) risks) > 0
             then push recommendations
               ''Address high-priority risks immediately to improve governance stability''
             else recommendations);
          recommendations =
            (if proposalSuccessRate metrics < 40
             then push recommendations
               ''Low proposal success rate indicates potential consensus issues''
             else recommendations)
      in recommendations)"

definition getInvestmentSignal :: "double \<Rightarrow> string" where
  "getInvestmentSignal score =
     (if jle (lit 80) score then ''STRONG_BUY''
      else if jle (lit 60) score then ''BUY''
      else if jle (lit 40) score then ''HOLD''
      else ''AVOID'')"

definition getRiskLevel :: "Risk list \<Rightarrow> string" where
  "getRiskLevel risks =
     (let highRisks = length (filter (\<lambda>r. type r = HIGH) risks)
      in if highRisks > 2 then ''CRITICAL''
         else if highRisks > 0 then ''HIGH''
         else if length risks > 3 then ''MEDIUM''
         else ''LOW'')"

section \<open>Inputs used in examples\<close>

text \<open>
  Scenarios A and B of the specification (a healthy and an unhealthy DAO); the scenarios fix
  the nine numeric metrics and leave \<open>name\<close> and \<open>symbol\<close> open.
\<close>

definition scenarioA :: "string \<Rightarrow> string \<Rightarrow> DAOMetrics" where
  "scenarioA n s =
     \<lparr> name = n, symbol = s, totalProposals = 25, activeProposals = 3, avgVoterTurnout = 40,
       tokenConcentration = 30, delegateActivity = 60, proposalSuccessRate = 75,
       avgProposalDuration = 5, treasuryHealth = 80, communityEngagement = 50 \<rparr>"

definition scenarioB :: "string \<Rightarrow> string \<Rightarrow> DAOMetrics" where
  "scenarioB n s =
     \<lparr> name = n, symbol = s, totalProposals = 2, activeProposals = 0, avgVoterTurnout = 5,
       tokenConcentration = 85, delegateActivity = 10, proposalSuccessRate = 15,
       avgProposalDuration = 1, treasuryHealth = 20, communityEngagement = 5 \<rparr>"

text \<open>A metrics record with a negative turnout and a success rate far above 100.\<close>

definition adversarial_metrics :: DAOMetrics where
  "adversarial_metrics =
     \<lparr> name = ''Adversarial'', symbol = ''ADV'', totalProposals = 0, activeProposals = 0,
       avgVoterTurnout = - 100, tokenConcentration = 0, delegateActivity = 0,
       proposalSuccessRate = 1000, avgProposalDuration = 0, treasuryHealth = 0,
       communityEngagement = 0 \<rparr>"

text \<open>
  Non-negative metrics for which the exact value of the participation formula is the tie
  7.5, while the sum of the binary64 products is just below it.
\<close>

definition tie_metrics :: DAOMetrics where
  "tie_metrics =
     \<lparr> name = ''Tie'', symbol = ''TIE'', totalProposals = 0, activeProposals = 0,
       avgVoterTurnout = 0, tokenConcentration = 0, delegateActivity = 1,
       proposalSuccessRate = 0, avgProposalDuration = 0, treasuryHealth = 0,
       communityEngagement = 24 \<rparr>"

section \<open>The formulas of the specification\<close>

text \<open>
  These three definitions follow the words of the specification (sections 4.1 and 4.2) and
  not the code, with the operations of the formulas read as operations on numbers:
  \<open>clamp(x) = min(100, max(0, x))\<close>,
  Participation = round(0.4 clamp(turnout * 2) + 0.3 clamp(delegateActivity)
  + 0.3 clamp(communityEngagement)), and
  overallScore = round(0.25 P + 0.25 D + 0.20 A + 0.15 T + 0.15 S).
  They are compared with \<open>calculateParticipationScore\<close> and \<open>calculateOverallScore\<close>
  below.
\<close>

definition clamp :: "double \<Rightarrow> double" where
  "clamp x = Math_min (lit 100) (Math_max (lit 0) x)"

definition participation_spec :: "DAOMetrics \<Rightarrow> double" where
  "participation_spec m =
     Math_round
       (jadd (jadd (jmul (lit 0.4) (clamp (jmul (Finite (avgVoterTurnout m)) (lit 2))))
                (jmul (lit 0.3) (clamp (Finite (delegateActivity m)))))
          (jmul (lit 0.3) (clamp (Finite (communityEngagement m)))))"

definition overall_spec :: "double \<Rightarrow> double \<Rightarrow> double \<Rightarrow> double \<Rightarrow> double \<Rightarrow> double" where
  "overall_spec P D A T S =
     Math_round
       (jadd (jadd (jadd (jadd (jmul (lit 0.25) P) (jmul (lit 0.25) D)) (jmul (lit 0.20) A))
                (jmul (lit 0.15) T))
          (jmul (lit 0.15) S))"

text \<open>A finite number between two bounds.\<close>

definition in_range :: "real \<Rightarrow> real \<Rightarrow> double \<Rightarrow> bool" where
  "in_range lo hi d = (case d of Finite v \<Rightarrow> lo \<le> v \<and> v \<le> hi | _ \<Rightarrow> False)"

section \<open>Rounding to binary64\<close>

lemma int_le_pow2_real: "(n::int) \<le> 2 ^ k \<Longrightarrow> real_of_int n \<le> 2 ^ k"
proof -
  assume "n \<le> 2 ^ k"
  then have "real_of_int n \<le> real_of_int (2 ^ k)" by (simp only: of_int_le_iff)
  then show ?thesis by simp
qed

lemma pow2_le_int_real: "2 ^ k \<le> (n::int) \<Longrightarrow> 2 ^ k \<le> real_of_int n"
proof -
  assume "2 ^ k \<le> n"
  then have "real_of_int (2 ^ k) \<le> real_of_int n" by (simp only: of_int_le_iff)
  then show ?thesis by simp
qed

lemma expo_bounds:
  assumes "0 < x"
  shows "2 powi (expo x) \<le> x \<and> x < 2 powi (expo x + 1)"
proof (cases "1 \<le> x")
  case True
  define n where "n = \<lfloor>x\<rfloor>"
  have n: "1 \<le> n" using True unfolding n_def by linarith
  then have b: "2 ^ nat (bitlen n - 1) \<le> n \<and> n < 2 ^ nat (bitlen n)"
    using bitlen_bounds [of n] by simp
  have k: "1 \<le> bitlen n" using n by (simp add: bitlen_alt_def)
  have e: "expo x = bitlen n - 1" using True by (simp add: expo_def n_def)
  have "(2::real) ^ nat (bitlen n - 1) \<le> real_of_int n"
    using b by (intro pow2_le_int_real) simp
  moreover have "real_of_int n \<le> x" unfolding n_def by linarith
  moreover have "(2::real) powi (bitlen n - 1) = 2 ^ nat (bitlen n - 1)"
    using k by (simp add: power_int_def)
  ultimately have lo: "2 powi (expo x) \<le> x"
    unfolding e by linarith
  have "n + 1 \<le> 2 ^ nat (bitlen n)" using b by linarith
  then have "real_of_int (n + 1) \<le> (2::real) ^ nat (bitlen n)"
    by (rule int_le_pow2_real)
  moreover have "x < real_of_int (n + 1)" unfolding n_def by linarith
  moreover have "(2::real) powi (bitlen n - 1 + 1) = 2 ^ nat (bitlen n)"
    using k by (simp add: power_int_def)
  ultimately have hi: "x < 2 powi (expo x + 1)"
    unfolding e by linarith
  from lo hi show ?thesis ..
next
  case False
  define c where "c = \<lceil>1 / x\<rceil>"
  define k where "k = bitlen (c - 1)"
  have y: "1 < 1 / x" using assms False by simp
  then have c: "2 \<le> c" unfolding c_def by linarith
  then have b: "2 ^ nat (k - 1) \<le> c - 1 \<and> c - 1 < 2 ^ nat k"
    unfolding k_def using bitlen_bounds [of "c - 1"] by simp
  have k: "1 \<le> k" unfolding k_def using c by (simp add: bitlen_alt_def)
  have e: "expo x = - k" using False by (simp add: expo_def c_def k_def)
  have "c \<le> 2 ^ nat k" using b by linarith
  then have "real_of_int c \<le> (2::real) ^ nat k" by (rule int_le_pow2_real)
  moreover have "1 / x \<le> real_of_int c" unfolding c_def by linarith
  ultimately have "1 / x \<le> 2 ^ nat k" by linarith
  then have "1 \<le> 2 ^ nat k * x"
    using assms by (simp add: field_simps)
  then have "1 / 2 ^ nat k \<le> x" by (simp add: field_simps)
  moreover have "(2::real) powi (- k) = 1 / 2 ^ nat k"
    using k by (simp add: power_int_def field_simps)
  ultimately have lo: "2 powi (expo x) \<le> x" unfolding e by linarith
  have "(2::real) ^ nat (k - 1) \<le> real_of_int (c - 1)"
    using b by (intro pow2_le_int_real) simp
  moreover have "real_of_int (c - 1) < 1 / x" unfolding c_def by linarith
  ultimately have "2 ^ nat (k - 1) < 1 / x" by linarith
  then have "2 ^ nat (k - 1) * x < 1"
    using assms by (simp add: field_simps)
  then have "x < 1 / 2 ^ nat (k - 1)" by (simp add: field_simps)
  moreover have "(2::real) powi (- k + 1) = 1 / 2 ^ nat (k - 1)"
  proof (cases "k = 1")
    case True
    then show ?thesis by simp
  next
    case F: False
    with k have "- k + 1 < 0" and "nat (- (- k + 1)) = nat (k - 1)" by simp_all
    then show ?thesis by (simp add: power_int_def field_simps)
  qed
  ultimately have hi: "x < 2 powi (expo x + 1)" unfolding e by linarith
  from lo hi show ?thesis ..
qed

lemma expo_unique:
  assumes "2 powi e \<le> x" "x < 2 powi (e + 1)"
  shows "expo x = e"
proof -
  have x: "0 < x" using assms(1) zero_less_power_int [of "2::real" e] by linarith
  note b = expo_bounds [OF x]
  have "\<not> expo x < e"
  proof
    assume "expo x < e"
    then have "expo x + 1 \<le> e" by simp
    then have "(2::real) powi (expo x + 1) \<le> 2 powi e"
      by (intro power_int_increasing) simp_all
    with b assms show False by linarith
  qed
  moreover have "\<not> e < expo x"
  proof
    assume "e < expo x"
    then have "e + 1 \<le> expo x" by simp
    then have "(2::real) powi (e + 1) \<le> 2 powi (expo x)"
      by (intro power_int_increasing) simp_all
    with b assms show False by linarith
  qed
  ultimately show ?thesis by linarith
qed

lemma expo_mono:
  assumes "0 < x" "x \<le> y"
  shows "expo x \<le> expo y"
proof (rule ccontr)
  assume "\<not> expo x \<le> expo y"
  then have "expo y + 1 \<le> expo x" by simp
  then have "(2::real) powi (expo y + 1) \<le> 2 powi (expo x)"
    by (intro power_int_increasing) simp_all
  moreover from assms have "0 < y" by linarith
  ultimately show False
    using expo_bounds [OF assms(1)] expo_bounds [OF \<open>0 < y\<close>] assms(2) by linarith
qed

lemma rne_of_int: "rne (of_int n) = n"
  by (simp add: rne_def)

lemma rne_lower: "\<lfloor>r\<rfloor> \<le> rne r"
  by (simp add: rne_def Let_def)

lemma rne_upper: "rne r \<le> \<lfloor>r\<rfloor> + 1"
  by (simp add: rne_def Let_def)

lemma rne_floor_cases:
  "rne r = \<lfloor>r\<rfloor> \<or> rne r = \<lfloor>r\<rfloor> + 1"
  by (simp add: rne_def Let_def)

lemma rne_mono:
  assumes "r \<le> s"
  shows "rne r \<le> rne s"
proof (cases "\<lfloor>r\<rfloor> = \<lfloor>s\<rfloor>")
  case True
  with assms show ?thesis
    by (auto simp: rne_def Let_def)
next
  case False
  with assms have "\<lfloor>r\<rfloor> + 1 \<le> \<lfloor>s\<rfloor>" using floor_mono [OF assms] by linarith
  with rne_upper [of r] rne_lower [of s] show ?thesis by linarith
qed

lemma rne_minus: "rne (- r) = - rne r"
proof (cases "r \<in> \<int>")
  case True
  then obtain n where "r = of_int n" by (auto elim: Ints_cases)
  then have "- r = of_int (- n)" by simp
  then show ?thesis unfolding \<open>r = of_int n\<close> by (simp only: rne_of_int)
next
  case False
  then have ne: "r \<noteq> of_int \<lfloor>r\<rfloor>" by (metis Ints_of_int)
  then have f: "\<lfloor>- r\<rfloor> = - \<lfloor>r\<rfloor> - 1"
    by (simp add: floor_minus ceiling_altdef)
  have d: "0 < r - of_int \<lfloor>r\<rfloor>"
    using ne of_int_floor_le [of r] by linarith
  show ?thesis
    unfolding rne_def Let_def f using d by (auto simp: field_simps)
qed

lemma rne_nonneg: "0 \<le> r \<Longrightarrow> 0 \<le> rne r"
  using rne_mono [of 0 r] rne_of_int [of 0] by simp

lemma fl_alt: "x \<noteq> 0 \<Longrightarrow> fl x = of_int (rne (x / 2 powi (binade x - 52))) * 2 powi (binade x - 52)"
  by (simp add: fl_def)

lemma fl_zero: "fl 0 = 0"
  by (simp add: fl_def)

lemma binade_minus: "binade (- x) = binade x"
  by (simp add: binade_def)

lemma fl_minus: "fl (- x) = - fl x"
  by (simp add: fl_def binade_minus rne_minus)

lemma pow_split_hi: "(2::real) powi (e + 1) = 2 ^ 53 * 2 powi (e - 52)"
proof -
  have "(2::real) powi (53 + (e - 52)) = 2 powi 53 * 2 powi (e - 52)"
    by (rule power_int_add) simp
  then show ?thesis by (simp add: add.commute)
qed

lemma pow_split_lo: "(2::real) powi e = 2 ^ 52 * 2 powi (e - 52)"
proof -
  have "(2::real) powi (52 + (e - 52)) = 2 powi 52 * 2 powi (e - 52)"
    by (rule power_int_add) simp
  then show ?thesis by simp
qed

lemma binade_upper:
  assumes "0 < x"
  shows "x < 2 powi (binade x + 1)"
proof -
  have "expo x + 1 \<le> binade x + 1" using assms by (simp add: binade_def)
  then have "(2::real) powi (expo x + 1) \<le> 2 powi (binade x + 1)"
    by (intro power_int_increasing) simp_all
  with expo_bounds [OF assms] show ?thesis by linarith
qed

lemma binade_lower:
  assumes "0 < x" "- 1022 < binade x"
  shows "2 powi (binade x) \<le> x"
proof -
  from assms have "binade x = expo x" by (simp add: binade_def max_def split: if_splits)
  with expo_bounds [OF assms(1)] show ?thesis by simp
qed

lemma binade_mono:
  assumes "0 < x" "x \<le> y"
  shows "binade x \<le> binade y"
  using expo_mono [OF assms] assms by (simp add: binade_def max_def)

lemma fl_nonneg:
  assumes "0 < x"
  shows "0 \<le> fl x"
proof -
  have "0 \<le> x / 2 powi (binade x - 52)" using assms by simp
  then have "0 \<le> rne (x / 2 powi (binade x - 52))" by (rule rne_nonneg)
  then show ?thesis using assms by (simp add: fl_alt)
qed

lemma fl_upper:
  assumes "0 < x"
  shows "fl x \<le> 2 powi (binade x + 1)"
proof -
  let ?u = "(2::real) powi (binade x - 52)"
  have u: "0 < ?u" by simp
  have "x < 2 ^ 53 * ?u" using binade_upper [OF assms] by (simp only: pow_split_hi)
  then have "x / ?u \<le> of_int (2 ^ 53)" using u by (simp add: field_simps)
  then have "rne (x / ?u) \<le> rne (of_int (2 ^ 53))" by (rule rne_mono)
  then have "rne (x / ?u) \<le> 2 ^ 53" by (simp only: rne_of_int)
  then have "real_of_int (rne (x / ?u)) \<le> 2 ^ 53" by (rule int_le_pow2_real)
  then have "of_int (rne (x / ?u)) * ?u \<le> 2 ^ 53 * ?u"
    using u by (simp only: mult_le_cancel_right_pos)
  then show ?thesis using assms by (simp only: pow_split_hi fl_alt)
qed

lemma fl_lower:
  assumes "0 < x" "- 1022 < binade x"
  shows "2 powi (binade x) \<le> fl x"
proof -
  let ?u = "(2::real) powi (binade x - 52)"
  have u: "0 < ?u" by simp
  have "2 ^ 52 * ?u \<le> x" using binade_lower [OF assms] by (simp only: pow_split_lo [symmetric])
  then have "of_int (2 ^ 52) \<le> x / ?u" using u by (simp add: field_simps)
  then have "rne (of_int (2 ^ 52)) \<le> rne (x / ?u)" by (rule rne_mono)
  then have "2 ^ 52 \<le> rne (x / ?u)" by (simp only: rne_of_int)
  then have "2 ^ 52 \<le> real_of_int (rne (x / ?u))" by (rule pow2_le_int_real)
  then have "2 ^ 52 * ?u \<le> of_int (rne (x / ?u)) * ?u"
    using u by (simp only: mult_le_cancel_right_pos)
  then show ?thesis using assms by (simp only: pow_split_lo [symmetric] fl_alt)
qed

lemma fl_mono_pos:
  assumes "0 < x" "x \<le> y"
  shows "fl x \<le> fl y"
proof (cases "binade x = binade y")
  case True
  let ?u = "(2::real) powi (binade y - 52)"
  have u: "0 < ?u" by simp
  from assms have y: "0 < y" by linarith
  have "x / ?u \<le> y / ?u" using assms(2) u by (simp add: divide_right_mono)
  then have "rne (x / ?u) \<le> rne (y / ?u)" by (rule rne_mono)
  then have "real_of_int (rne (x / ?u)) * ?u \<le> real_of_int (rne (y / ?u)) * ?u"
    using u by simp
  then show ?thesis using assms(1) y True by (simp add: fl_alt)
next
  case False
  from assms have y: "0 < y" by linarith
  from False binade_mono [OF assms] have lt: "binade x + 1 \<le> binade y" by linarith
  then have "(2::real) powi (binade x + 1) \<le> 2 powi (binade y)"
    by (intro power_int_increasing) simp_all
  moreover have "- 1022 < binade y" using lt by (simp add: binade_def)
  ultimately show ?thesis
    using fl_upper [OF assms(1)] fl_lower [OF y] by linarith
qed

lemma fl_mono:
  assumes "x \<le> y"
  shows "fl x \<le> fl y"
proof -
  consider "0 < x" | "x \<le> 0" "0 \<le> y" | "y < 0" by linarith
  then show ?thesis
  proof cases
    case 1
    then show ?thesis using assms by (rule fl_mono_pos)
  next
    case 2
    have "fl x \<le> 0"
    proof (cases "x = 0")
      case True then show ?thesis by (simp add: fl_zero)
    next
      case False
      with 2 have "0 < - x" by simp
      from fl_nonneg [OF this] show ?thesis by (simp add: fl_minus)
    qed
    moreover have "0 \<le> fl y"
    proof (cases "y = 0")
      case True then show ?thesis by (simp add: fl_zero)
    next
      case False
      with 2 have "0 < y" by simp
      then show ?thesis by (rule fl_nonneg)
    qed
    ultimately show ?thesis by linarith
  next
    case 3
    then have "0 < - y" "- y \<le> - x" using assms by simp_all
    from fl_mono_pos [OF this] show ?thesis by (simp add: fl_minus)
  qed
qed

lemma binade_ge: "- 1022 \<le> binade x"
  by (simp add: binade_def)

lemma binade_eqI:
  assumes "0 < y" "y < 2 powi (e + 1)" "- 1022 \<le> e" "- 1022 < e \<longrightarrow> 2 powi e \<le> y"
  shows "binade y = e"
proof (cases "- 1022 < e")
  case True
  with assms have "expo y = e" by (intro expo_unique) simp_all
  with True assms(1) show ?thesis by (simp add: binade_def)
next
  case False
  with assms have e: "e = - 1022" by simp
  have "\<not> - 1021 \<le> expo y"
  proof
    assume "- 1021 \<le> expo y"
    then have "(2::real) powi (- 1021) \<le> 2 powi (expo y)"
      by (intro power_int_increasing) simp_all
    with expo_bounds [OF assms(1)] assms(2) e show False by simp
  qed
  then show ?thesis using assms(1) e by (simp add: binade_def)
qed

lemma div_eqI: "0 < w \<Longrightarrow> a = c * w \<Longrightarrow> a / w = (c::real)"
  by simp

lemma fl_idem_pos:
  assumes "0 < x"
  shows "fl (fl x) = fl x"
proof -
  define E where "E = binade x"
  define u where "u = (2::real) powi (E - 52)"
  define n where "n = rne (x / u)"
  have u: "0 < u" unfolding u_def by simp
  have flx: "fl x = of_int n * u" using assms by (simp add: fl_alt n_def u_def E_def)
  have up: "fl x \<le> 2 powi (E + 1)" unfolding E_def by (rule fl_upper [OF assms])
  have nn: "0 \<le> fl x" by (rule fl_nonneg [OF assms])
  consider "fl x = 0" | "fl x = 2 powi (E + 1)" | "0 < fl x" "fl x < 2 powi (E + 1)"
    using up nn by linarith
  then show ?thesis
  proof cases
    case 1
    then show ?thesis by (simp add: fl_zero)
  next
    case 2
    have b: "binade (2 powi (E + 1) :: real) = E + 1"
      using binade_ge [of x]
      by (intro binade_eqI) (simp_all add: E_def power_int_strict_increasing)
    have q: "(2::real) powi (E + 1) / 2 powi (E + 1 - 52) = of_int (2 ^ 52)"
      by (rule div_eqI) (simp_all only: zero_less_power_int zero_less_numeral
          pow_split_lo [of "E + 1"] of_int_power of_int_numeral)
    have "fl (2 powi (E + 1)) = of_int (rne (of_int (2 ^ 52))) * 2 powi (E + 1 - 52)"
      by (simp only: fl_alt [of "2 powi (E + 1)", simplified] b q)
    also have "\<dots> = 2 ^ 52 * 2 powi (E + 1 - 52)" by (simp only: rne_of_int) simp
    also have "\<dots> = 2 powi (E + 1)" by (simp only: pow_split_lo [symmetric])
    finally show ?thesis unfolding 2 .
  next
    case 3
    have lo: "- 1022 < E \<longrightarrow> 2 powi E \<le> fl x"
      using fl_lower [OF assms] by (simp add: E_def)
    have b: "binade (fl x) = E"
      using 3 lo binade_ge [of x] by (intro binade_eqI) (simp_all add: E_def)
    have "fl x / u = of_int n" using u by (simp add: flx)
    then have "fl (fl x) = of_int (rne (of_int n)) * u"
      using 3(1) by (simp add: fl_alt b u_def)
    then show ?thesis by (simp only: rne_of_int flx)
  qed
qed

lemma fl_idem: "fl (fl x) = fl x"
proof -
  consider "0 < x" | "x = 0" | "0 < - x" by linarith
  then show ?thesis
  proof cases
    case 1 then show ?thesis by (rule fl_idem_pos)
  next
    case 2 then show ?thesis by (simp add: fl_zero)
  next
    case 3
    from fl_idem_pos [OF this] show ?thesis by (simp add: fl_minus)
  qed
qed

section \<open>Literals of the source\<close>

text \<open>
  The rules \<open>eval_simps\<close> evaluate \<open>fl\<close> and \<open>rounded\<close> on closed terms only; on a term
  with variables the rule for \<open>bitlen\<close> does not terminate.
\<close>

lemmas eval_simps = rounded_def fl_def binade_def expo_def rne_def compute_bitlen

lemma lit_ints:
  "lit 0 = Finite 0"
  "lit 2 = Finite 2"
  "lit 10 = Finite 10"
  "lit 12 = Finite 12"
  "lit 20 = Finite 20"
  "lit 25 = Finite 25"
  "lit 40 = Finite 40"
  "lit 50 = Finite 50"
  "lit 60 = Finite 60"
  "lit 70 = Finite 70"
  "lit 80 = Finite 80"
  "lit 100 = Finite 100"
  by (simp_all add: lit_def eval_simps)

lemma lit_decimals:
  "lit 0.4 = Finite (3602879701896397 / 9007199254740992)"
  "lit 0.3 = Finite (5404319552844595 / 18014398509481984)"
  "lit 0.7 = Finite (3152519739159347 / 4503599627370496)"
  "lit 0.6 = Finite (5404319552844595 / 9007199254740992)"
  "lit 0.25 = Finite (1 / 4)"
  "lit 0.20 = Finite (3602879701896397 / 18014398509481984)"
  "lit 0.15 = Finite (5404319552844595 / 36028797018963968)"
  by (simp_all add: lit_def eval_simps)

lemma lit_fractions:
  "lit (2 / 5) = Finite (3602879701896397 / 9007199254740992)"
  "lit (3 / 10) = Finite (5404319552844595 / 18014398509481984)"
  "lit (7 / 10) = Finite (3152519739159347 / 4503599627370496)"
  "lit (3 / 5) = Finite (5404319552844595 / 9007199254740992)"
  "lit (1 / 4) = Finite (1 / 4)"
  "lit (1 / 5) = Finite (3602879701896397 / 18014398509481984)"
  "lit (3 / 20) = Finite (5404319552844595 / 36028797018963968)"
  by (simp_all add: lit_def eval_simps)

section \<open>Results of operations and their order\<close>

lemma in_range_Finite [simp]: "in_range lo hi (Finite v) \<longleftrightarrow> lo \<le> v \<and> v \<le> hi"
  by (simp add: in_range_def)

lemma in_rangeE:
  assumes "in_range lo hi d"
  obtains v where "d = Finite v" "lo \<le> v" "v \<le> hi"
  using assms by (cases d) (simp_all add: in_range_def)

lemma fl_nonneg': "0 \<le> r \<Longrightarrow> 0 \<le> fl r"
  using fl_mono [of 0 r] by (simp add: fl_zero)

lemma fl_nonpos': "r \<le> 0 \<Longrightarrow> fl r \<le> 0"
  using fl_mono [of r 0] by (simp add: fl_zero)

lemma rounded_cases:
  obtains (fin) "rounded r = Finite (fl r)" "\<bar>fl r\<bar> < 2 ^ 1024"
  | (pinf) "rounded r = PInf" "2 ^ 1024 \<le> fl r" "0 < r"
  | (ninf) "rounded r = NInf" "fl r \<le> - (2 ^ 1024)" "r < 0"
proof (cases "2 ^ 1024 \<le> \<bar>fl r\<bar>")
  case False
  then show ?thesis by (intro fin) (simp_all add: rounded_def)
next
  case True
  show ?thesis
  proof (cases "0 < r")
    case pos: True
    then have "0 \<le> fl r" by (intro fl_nonneg') simp
    with True pos show ?thesis by (intro pinf) (simp_all add: rounded_def)
  next
    case neg: False
    then have le: "fl r \<le> 0" by (intro fl_nonpos') simp
    have "r \<noteq> 0" using True by (auto simp: fl_zero)
    with True neg le show ?thesis by (intro ninf) (simp_all add: rounded_def)
  qed
qed

lemma rounded_not_NaN [simp]: "rounded r \<noteq> NaN"
  by (simp add: rounded_def)

lemma jle_refl_iff [simp]: "jle x x \<longleftrightarrow> x \<noteq> NaN"
  by (cases x) simp_all

lemma jle_NaN [simp]: "\<not> jle x NaN" "\<not> jle NaN y"
  by (cases x, simp_all)

lemma jle_NInf [simp]: "jle NInf y \<longleftrightarrow> y \<noteq> NaN"
  by (cases y) simp_all

lemma jle_PInf [simp]: "jle x PInf \<longleftrightarrow> x \<noteq> NaN"
  by (cases x) simp_all

lemma jle_trans: "jle x y \<Longrightarrow> jle y z \<Longrightarrow> jle x z"
  by (cases x; cases y; cases z) simp_all

lemma rounded_mono:
  assumes "r \<le> s"
  shows "jle (rounded r) (rounded s)"
proof -
  note m = fl_mono [OF assms]
  show ?thesis
  proof (cases r rule: rounded_cases)
    case fin
    show ?thesis
    proof (cases s rule: rounded_cases)
      case fin2: fin
      with fin m show ?thesis by simp
    next
      case pinf
      with fin show ?thesis by simp
    next
      case ninf
      with fin m show ?thesis by simp
    qed
  next
    case pinf
    then have "2 ^ 1024 \<le> \<bar>fl s\<bar>" "0 < s" using m assms by simp_all
    then have "rounded s = PInf" by (simp add: rounded_def)
    with pinf show ?thesis by simp
  next
    case ninf
    then show ?thesis by simp
  qed
qed

lemma rounded_in_range:
  assumes "lo \<le> r" "r \<le> hi" "\<bar>fl lo\<bar> < 2 ^ 1024" "\<bar>fl hi\<bar> < 2 ^ 1024"
  shows "in_range (fl lo) (fl hi) (rounded r)"
proof -
  have "fl lo \<le> fl r" "fl r \<le> fl hi" using assms(1,2) by (simp_all add: fl_mono)
  with assms(3,4) have "\<not> 2 ^ 1024 \<le> \<bar>fl r\<bar>" by linarith
  then have "rounded r = Finite (fl r)" by (simp add: rounded_def)
  with \<open>fl lo \<le> fl r\<close> \<open>fl r \<le> fl hi\<close> show ?thesis by simp
qed

lemma rounded_nonneg:
  assumes "0 \<le> r"
  shows "jle (Finite 0) (rounded r)"
proof (cases r rule: rounded_cases)
  case fin
  with fl_nonneg' [OF assms] show ?thesis by simp
next
  case pinf
  then show ?thesis by simp
next
  case ninf
  with assms show ?thesis by simp
qed

lemma rounded_idem:
  assumes "rounded r = Finite v"
  shows "rounded v = Finite v"
proof -
  from assms have "\<not> 2 ^ 1024 \<le> \<bar>fl r\<bar>" and v: "v = fl r"
    by (auto simp: rounded_def split: if_splits)
  then show ?thesis by (simp add: rounded_def fl_idem)
qed

section \<open>Operators\<close>

subsection \<open>Ranges\<close>

lemma Math_min_100_in_range:
  assumes "jle (Finite 0) a"
  shows "in_range 0 100 (Math_min (lit 100) a)"
  using assms by (cases a) (simp_all add: Math_min_def lit_ints)

lemma Math_max_0_in_range:
  assumes "jle a (Finite 100)"
  shows "in_range 0 100 (Math_max (lit 0) a)"
  using assms by (cases a) (simp_all add: Math_max_def lit_ints)

lemma jmul_nonneg:
  assumes "jle (Finite 0) a" "0 < c"
  shows "jle (Finite 0) (jmul a (Finite c))"
proof (cases a)
  case (Finite v)
  with assms have "0 \<le> v * c" by simp
  then show ?thesis unfolding Finite by (simp add: rounded_nonneg)
next
  case PInf
  with assms show ?thesis by simp
next
  case NInf
  with assms show ?thesis by simp
next
  case NaN
  with assms show ?thesis by simp
qed

lemma jmul_in_range:
  assumes "in_range 0 100 a" "0 \<le> c" "fl (100 * c) = M" "\<bar>M\<bar> < 2 ^ 1024"
  shows "in_range 0 M (jmul a (Finite c))"
proof -
  note assms(3) [symmetric, simp]
  note bound = assms(4) [unfolded assms(3) [symmetric]]
  from assms(1) obtain v where a: "a = Finite v" and v: "0 \<le> v" "v \<le> 100"
    by (rule in_rangeE)
  have "0 \<le> v * c" "v * c \<le> 100 * c"
    using v assms(2) by (simp_all add: mult_right_mono)
  from rounded_in_range [OF this] bound show ?thesis
    unfolding a by (simp add: fl_zero)
qed

lemma jadd_in_range:
  assumes "in_range 0 p a" "in_range 0 q b" "fl (p + q) = M" "\<bar>M\<bar> < 2 ^ 1024"
  shows "in_range 0 M (jadd a b)"
proof -
  note assms(3) [symmetric, simp]
  note bound = assms(4) [unfolded assms(3) [symmetric]]
  from assms(1) obtain v where a: "a = Finite v" and v: "0 \<le> v" "v \<le> p"
    by (rule in_rangeE)
  from assms(2) obtain w where b: "b = Finite w" and w: "0 \<le> w" "w \<le> q"
    by (rule in_rangeE)
  have "0 \<le> v + w" "v + w \<le> p + q" using v w by simp_all
  from rounded_in_range [OF this] bound show ?thesis
    unfolding a b by (simp add: fl_zero)
qed

lemma Math_round_in_range:
  assumes "in_range 0 100 a"
  shows "\<exists>v. Math_round a = Finite v \<and> v \<in> \<int> \<and> 0 \<le> v \<and> v \<le> 100"
proof -
  from assms obtain x where a: "a = Finite x" and x: "0 \<le> x" "x \<le> 100"
    by (rule in_rangeE)
  have "0 \<le> \<lfloor>x + 1 / 2\<rfloor>" "\<lfloor>x + 1 / 2\<rfloor> \<le> 100" using x by linarith+
  then have "0 \<le> real_of_int \<lfloor>x + 1 / 2\<rfloor>" "real_of_int \<lfloor>x + 1 / 2\<rfloor> \<le> 100"
    by linarith+
  then show ?thesis unfolding a by simp
qed

lemma in_range_weaken: "in_range lo hi a \<Longrightarrow> hi \<le> hi' \<Longrightarrow> in_range lo hi' a"
  by (cases a) (simp_all add: in_range_def)

subsection \<open>Monotonicity\<close>

lemma Math_min_mono:
  assumes "jle a a'"
  shows "jle (Math_min (Finite c) a) (Math_min (Finite c) a')"
  using assms by (cases a; cases a') (auto simp: Math_min_def)

lemma jmul_mono:
  assumes "jle a a'" "0 < c"
  shows "jle (jmul a (Finite c)) (jmul a' (Finite c))"
proof (cases a)
  case (Finite v)
  show ?thesis
  proof (cases a')
    case F': (Finite v')
    with Finite assms have "v * c \<le> v' * c" by simp
    then show ?thesis unfolding Finite F' by (simp add: rounded_mono)
  next
    case PInf
    with assms show ?thesis unfolding Finite by simp
  next
    case NInf
    with Finite assms show ?thesis by simp
  next
    case NaN
    with assms show ?thesis by simp
  qed
next
  case PInf
  with assms have "a' = PInf" by (cases a') simp_all
  with PInf assms show ?thesis by simp
next
  case NInf
  with assms show ?thesis by (cases a') simp_all
next
  case NaN
  with assms show ?thesis by simp
qed

lemma jle_Finite_cases:
  assumes "jle a (Finite p)"
  obtains (fin) v where "a = Finite v" "v \<le> p" | (ninf) "a = NInf"
  using assms by (cases a) simp_all

lemma jadd_upper:
  assumes "jle a (Finite p)" "jle b (Finite q)" "\<bar>fl (p + q)\<bar> < 2 ^ 1024"
  shows "jle (jadd a b) (Finite (fl (p + q)))"
  using assms(1)
proof (cases rule: jle_Finite_cases)
  case (fin v)
  from assms(2) show ?thesis
  proof (cases rule: jle_Finite_cases)
    case b: (fin w)
    with fin have "v + w \<le> p + q" by simp
    from rounded_mono [OF this] assms(3) show ?thesis
      unfolding fin b by (simp add: rounded_def)
  next
    case ninf
    with fin show ?thesis by simp
  qed
next
  case ninf
  with assms(2) show ?thesis by (cases b) simp_all
qed

lemma jmul_upper:
  assumes "jle a (Finite p)" "0 < c" "\<bar>fl (p * c)\<bar> < 2 ^ 1024"
  shows "jle (jmul a (Finite c)) (Finite (fl (p * c)))"
proof -
  from jmul_mono [OF assms(1,2)] have "jle (jmul a (Finite c)) (rounded (p * c))" by simp
  with assms(3) show ?thesis by (simp add: rounded_def)
qed

lemma jadd_mono_left:
  assumes "jle a a'" "jle a' (Finite p)" "jle b (Finite q)"
  shows "jle (jadd a b) (jadd a' b)"
  using assms(3)
proof (cases rule: jle_Finite_cases)
  case b: (fin w)
  from assms(2) show ?thesis
  proof (cases rule: jle_Finite_cases)
    case a': (fin v')
    show ?thesis
    proof (cases a)
      case (Finite v)
      with assms(1) a' have "v + w \<le> v' + w" by simp
      then show ?thesis unfolding Finite a' b by (simp add: rounded_mono)
    next
      case NInf
      then show ?thesis unfolding a' b by simp
    next
      case PInf
      with assms(1) a' show ?thesis by simp
    next
      case NaN
      with assms(1) show ?thesis by simp
    qed
  next
    case ninf
    with assms(1) have "a = NInf" by (cases a) simp_all
    with ninf b show ?thesis by simp
  qed
next
  case ninf
  from assms(1,2) have "a \<noteq> NaN \<and> a \<noteq> PInf \<and> a' \<noteq> NaN \<and> a' \<noteq> PInf"
    by (cases a; cases a') simp_all
  then show ?thesis unfolding ninf by (cases a; cases a') simp_all
qed

lemma Math_round_mono:
  assumes "jle a a'"
  shows "jle (Math_round a) (Math_round a')"
proof (cases a; cases a')
  fix v v' assume "a = Finite v" "a' = Finite v'"
  with assms have "v \<le> v'" by simp
  then have "\<lfloor>v + 1 / 2\<rfloor> \<le> \<lfloor>v' + 1 / 2\<rfloor>" by (intro floor_mono) simp
  then show ?thesis using \<open>a = Finite v\<close> \<open>a' = Finite v'\<close> by simp
qed (use assms in simp_all)

subsection \<open>Algebra\<close>

lemma jmul_commute: "jmul a b = jmul b a"
  by (cases a; cases b) (auto simp: mult.commute)

lemma jmul_result_cases:
  "(\<exists>r. jmul a b = rounded r) \<or> jmul a b = NaN \<or> jmul a b = PInf \<or> jmul a b = NInf"
  by (cases a; cases b) auto

lemma jadd_zero_left_rounded: "jadd (Finite 0) (rounded r) = rounded r"
proof (cases r rule: rounded_cases)
  case fin
  then show ?thesis using rounded_idem [of r "fl r"] by simp
next
  case pinf
  then show ?thesis by simp
next
  case ninf
  then show ?thesis by simp
qed

lemma jadd_zero_left: "jadd (Finite 0) (jmul a b) = jmul a b"
  using jmul_result_cases [of a b] by (auto simp: jadd_zero_left_rounded)

lemma Math_max_0_nonneg:
  assumes "jle (Finite 0) a"
  shows "Math_max (lit 0) a = a"
  using assms by (cases a) (auto simp: Math_max_def lit_ints)

section \<open>Category scores\<close>

lemma fl_consts:
  "fl (100 * (3602879701896397 / 9007199254740992)) = 40"
  "fl (100 * (5404319552844595 / 18014398509481984)) = 30"
  "fl (100 * (3152519739159347 / 4503599627370496)) = 70"
  "fl (40 + 30) = 70"
  "fl (70 + 30) = 100"
  by (simp_all add: eval_simps)

lemma rounded_consts:
  "rounded 100 = Finite 100"
  by (simp_all add: eval_simps)

lemma metric_times_nonneg:
  assumes "0 \<le> x" "lit c = Finite c'" "0 \<le> c'"
  shows "jle (Finite 0) (jmul (Finite x) (lit c))"
proof -
  from assms(1,3) have "0 \<le> x * c'" by simp
  then show ?thesis unfolding assms(2) by (simp add: rounded_nonneg)
qed

lemma capped_metric:
  assumes "0 \<le> x"
  shows "in_range 0 100 (Math_min (lit 100) (Finite x))"
  using assms by (intro Math_min_100_in_range) simp

lemma capped_product:
  assumes "0 \<le> x" "lit c = Finite c'" "0 \<le> c'"
  shows "in_range 0 100 (Math_min (lit 100) (jmul (Finite x) (lit c)))"
  using assms by (intro Math_min_100_in_range metric_times_nonneg)

lemma term_04:
  assumes "in_range 0 100 a"
  shows "in_range 0 40 (jmul a (lit 0.4))"
  unfolding lit_decimals by (rule jmul_in_range [OF assms _ fl_consts(1)]) simp_all

lemma term_03:
  assumes "in_range 0 100 a"
  shows "in_range 0 30 (jmul a (lit 0.3))"
  unfolding lit_decimals by (rule jmul_in_range [OF assms _ fl_consts(2)]) simp_all

lemma term_07:
  assumes "in_range 0 100 a"
  shows "in_range 0 70 (jmul a (lit 0.7))"
  unfolding lit_decimals by (rule jmul_in_range [OF assms _ fl_consts(3)]) simp_all

lemma sum_40_30:
  assumes "in_range 0 40 a" "in_range 0 30 b"
  shows "in_range 0 70 (jadd a b)"
  by (rule jadd_in_range [OF assms fl_consts(4)]) simp

lemma sum_70_30:
  assumes "in_range 0 70 a" "in_range 0 30 b"
  shows "in_range 0 100 (jadd a b)"
  by (rule jadd_in_range [OF assms fl_consts(5)]) simp

lemma sum_40_30_30:
  assumes "in_range 0 100 a" "in_range 0 100 b" "in_range 0 100 c"
  shows "in_range 0 100 (jadd (jadd (jmul a (lit 0.4)) (jmul b (lit 0.3))) (jmul c (lit 0.3)))"
  by (intro sum_70_30 sum_40_30 term_04 term_03 assms)

lemma participation_range:
  assumes "0 \<le> avgVoterTurnout m" "0 \<le> delegateActivity m" "0 \<le> communityEngagement m"
  shows "\<exists>v. calculateParticipationScore m = Finite v \<and> v \<in> \<int> \<and> 0 \<le> v \<and> v \<le> 100"
  unfolding calculateParticipationScore_def Let_def
  by (intro Math_round_in_range sum_40_30_30 capped_metric capped_product [OF _ lit_ints(2)]
      assms) simp

lemma decentralization_range:
  assumes "0 \<le> tokenConcentration m" "0 \<le> delegateActivity m"
  shows "\<exists>v. calculateDecentralizationScore m = Finite v \<and> v \<in> \<int> \<and> 0 \<le> v \<and> v \<le> 100"
proof -
  have "100 - tokenConcentration m \<le> 100" using assms(1) by simp
  from rounded_mono [OF this]
  have "jle (jsub (lit 100) (Finite (tokenConcentration m))) (Finite 100)"
    by (simp add: lit_ints rounded_consts)
  then have c: "in_range 0 100
      (Math_max (lit 0) (jsub (lit 100) (Finite (tokenConcentration m))))"
    by (rule Math_max_0_in_range)
  show ?thesis
    unfolding calculateDecentralizationScore_def Let_def
    by (intro Math_round_in_range sum_70_30 term_07 term_03 c capped_metric assms)
qed

lemma activity_range:
  assumes "0 \<le> totalProposals m" "0 \<le> activeProposals m"
    "0 \<le> proposalSuccessRate m" "proposalSuccessRate m \<le> 100"
  shows "\<exists>v. calculateActivityScore m = Finite v \<and> v \<in> \<int> \<and> 0 \<le> v \<and> v \<le> 100"
proof -
  have "0 \<le> totalProposals m / 12" using assms(1) by simp
  then have "jle (Finite 0) (jdiv (Finite (totalProposals m)) (lit 12))"
    by (simp add: lit_ints rounded_nonneg)
  then have "jle (Finite 0) (jmul (jdiv (Finite (totalProposals m)) (lit 12)) (lit 20))"
    unfolding lit_ints(5) by (rule jmul_nonneg) simp
  then have p: "in_range 0 100
      (Math_min (lit 100) (jmul (jdiv (Finite (totalProposals m)) (lit 12)) (lit 20)))"
    by (rule Math_min_100_in_range)
  have s: "in_range 0 100 (Finite (proposalSuccessRate m))" using assms(3,4) by simp
  show ?thesis
    unfolding calculateActivityScore_def Let_def
    by (intro Math_round_in_range sum_40_30_30 p s capped_product [OF _ lit_ints(6)] assms) simp
qed

lemma stability_range:
  assumes "0 \<le> proposalSuccessRate m" "proposalSuccessRate m \<le> 100"
    "0 \<le> treasuryHealth m" "treasuryHealth m \<le> 100" "0 \<le> avgProposalDuration m"
  shows "\<exists>v. calculateStabilityScore m = Finite v \<and> v \<in> \<int> \<and> 0 \<le> v \<and> v \<le> 100"
proof -
  have s: "in_range 0 100 (Finite (proposalSuccessRate m))" using assms(1,2) by simp
  have t: "in_range 0 100 (Finite (treasuryHealth m))" using assms(3,4) by simp
  show ?thesis
    unfolding calculateStabilityScore_def Let_def
    by (intro Math_round_in_range sum_40_30_30 s t capped_product [OF _ lit_ints(3)] assms) simp
qed

lemma transparency_sums:
  "Math_round (jadd (jmul (lit 80) (lit 0.6)) (jmul (lit 70) (lit 0.4))) = Finite 76"
  "Math_round (jadd (jmul (lit 80) (lit 0.6)) (jmul (lit 40) (lit 0.4))) = Finite 64"
  "Math_round (jadd (jmul (lit 50) (lit 0.6)) (jmul (lit 70) (lit 0.4))) = Finite 58"
  "Math_round (jadd (jmul (lit 50) (lit 0.6)) (jmul (lit 40) (lit 0.4))) = Finite 46"
  by (simp_all add: lit_ints lit_fractions eval_simps)

lemma transparency_value:
  "calculateTransparencyScore m =
     Finite (if totalProposals m > 10 then (if avgProposalDuration m > 3 then 76 else 64)
      else (if avgProposalDuration m > 3 then 58 else 46))"
  unfolding calculateTransparencyScore_def Let_def
  by (cases "totalProposals m > 10"; cases "avgProposalDuration m > 3")
    (simp_all only: if_True if_False transparency_sums)

lemma transparency_range:
  "\<exists>v. calculateTransparencyScore m = Finite v \<and> v \<in> \<int> \<and> 0 \<le> v \<and> v \<le> 100"
  by (simp add: transparency_value)

lemmas scorer_defs =
  calculateCategoryScores_def calculateParticipationScore_def calculateDecentralizationScore_def
  calculateActivityScore_def calculateTransparencyScore_def calculateStabilityScore_def
  Math_min_def Math_max_def lit_ints lit_fractions

lemma scenarioA_scores:
  "calculateCategoryScores (scenarioA n s) =
     \<lparr> participation = Finite 65, decentralization = Finite 67, activity = Finite 62,
       transparency = Finite 76, stability = Finite 69 \<rparr>"
  by (simp add: scorer_defs scenarioA_def eval_simps)

lemma scenarioB_scores:
  "calculateCategoryScores (scenarioB n s) =
     \<lparr> participation = Finite 9, decentralization = Finite 14, activity = Finite 6,
       transparency = Finite 46, stability = Finite 15 \<rparr>"
  by (simp add: scorer_defs scenarioB_def eval_simps)

lemma adversarial_scores:
  "calculateCategoryScores adversarial_metrics =
     \<lparr> participation = Finite (- 80), decentralization = Finite 70, activity = Finite 300,
       transparency = Finite 46, stability = Finite 400 \<rparr>"
  by (simp add: scorer_defs adversarial_metrics_def eval_simps)

lemma Math_min_upper:
  assumes "a \<noteq> NaN"
  shows "jle (Math_min (Finite c) a) (Finite c)"
  using assms by (cases a) (auto simp: Math_min_def)

lemma Math_min_saturated:
  assumes "jle (Finite c) a"
  shows "Math_min (Finite c) a = Finite c"
  using assms by (cases a) (auto simp: Math_min_def)

lemma capped_upper: "jle (Math_min (lit 100) (Finite x)) (Finite 100)"
  unfolding lit_ints by (rule Math_min_upper) simp

lemma capped_product_upper: "jle (Math_min (lit 100) (jmul (Finite x) (lit 2))) (Finite 100)"
  unfolding lit_ints by (rule Math_min_upper) simp

lemma term_04_upper:
  assumes "jle a (Finite 100)"
  shows "jle (jmul a (lit 0.4)) (Finite 40)"
  unfolding lit_decimals
  using jmul_upper [OF assms, of "3602879701896397 / 9007199254740992"]
  by (simp only: fl_consts) simp

lemma term_03_upper:
  assumes "jle a (Finite 100)"
  shows "jle (jmul a (lit 0.3)) (Finite 30)"
  unfolding lit_decimals
  using jmul_upper [OF assms, of "5404319552844595 / 18014398509481984"]
  by (simp only: fl_consts) simp

lemma sum_40_30_upper:
  assumes "jle a (Finite 40)" "jle b (Finite 30)"
  shows "jle (jadd a b) (Finite 70)"
  using jadd_upper [OF assms] by (simp only: fl_consts) simp

lemma participation_sum_mono:
  assumes "jle a a'" "jle a' (Finite 100)" "jle b (Finite 100)" "jle c (Finite 100)"
  shows "jle (Math_round (jadd (jadd (jmul a (lit 0.4)) (jmul b (lit 0.3))) (jmul c (lit 0.3))))
     (Math_round (jadd (jadd (jmul a' (lit 0.4)) (jmul b (lit 0.3))) (jmul c (lit 0.3))))"
proof -
  have x: "jle (jmul a (lit 0.4)) (jmul a' (lit 0.4))"
    unfolding lit_decimals by (rule jmul_mono [OF assms(1)]) simp
  note x' = term_04_upper [OF assms(2)]
  note b = term_03_upper [OF assms(3)]
  note c = term_03_upper [OF assms(4)]
  have y: "jle (jadd (jmul a (lit 0.4)) (jmul b (lit 0.3)))
      (jadd (jmul a' (lit 0.4)) (jmul b (lit 0.3)))"
    by (rule jadd_mono_left [OF x x' b])
  note y' = sum_40_30_upper [OF x' b]
  show ?thesis
    by (intro Math_round_mono jadd_mono_left [OF y y' c])
qed

text \<open>
  Claim C1.  As stated (for every input, adversarial ones included, each of the five
  category scores is an integer in [0, 100]) the claim fails: the scorers cap terms at 100
  with \<open>Math.min\<close> but never floor them at 0, and \<open>proposalSuccessRate\<close> and
  \<open>treasuryHealth\<close> enter the sums as they are.  For the adversarial record above the
  participation score is -80, the activity score 300 and the stability score 400.
\<close>

theorem C1_counterexample:
  "participation (calculateCategoryScores adversarial_metrics) = Finite (- 80)
   \<and> \<not> jle (Finite 0) (participation (calculateCategoryScores adversarial_metrics))
   \<and> activity (calculateCategoryScores adversarial_metrics) = Finite 300
   \<and> \<not> jle (activity (calculateCategoryScores adversarial_metrics)) (Finite 100)"
  by (simp add: adversarial_scores)

text \<open>
  Claim C1, amended.  For every metrics record whose numeric fields are non-negative and
  whose \<open>proposalSuccessRate\<close> and \<open>treasuryHealth\<close> are at most 100, each of the five
  scores returned by \<open>calculateCategoryScores\<close> is (a finite number that is) an integer
  in [0, 100].
\<close>

theorem C1_scores_in_range:
  assumes "0 \<le> totalProposals m" "0 \<le> activeProposals m" "0 \<le> avgVoterTurnout m"
    "0 \<le> tokenConcentration m" "0 \<le> delegateActivity m"
    "0 \<le> proposalSuccessRate m" "proposalSuccessRate m \<le> 100"
    "0 \<le> avgProposalDuration m"
    "0 \<le> treasuryHealth m" "treasuryHealth m \<le> 100"
    "0 \<le> communityEngagement m"
  shows "(\<exists>v. participation (calculateCategoryScores m) = Finite v
            \<and> v \<in> \<int> \<and> 0 \<le> v \<and> v \<le> 100)
     \<and> (\<exists>v. decentralization (calculateCategoryScores m) = Finite v
            \<and> v \<in> \<int> \<and> 0 \<le> v \<and> v \<le> 100)
     \<and> (\<exists>v. activity (calculateCategoryScores m) = Finite v
            \<and> v \<in> \<int> \<and> 0 \<le> v \<and> v \<le> 100)
     \<and> (\<exists>v. transparency (calculateCategoryScores m) = Finite v
            \<and> v \<in> \<int> \<and> 0 \<le> v \<and> v \<le> 100)
     \<and> (\<exists>v. stability (calculateCategoryScores m) = Finite v
            \<and> v \<in> \<int> \<and> 0 \<le> v \<and> v \<le> 100)"
proof -
  have p: "participation (calculateCategoryScores m) = calculateParticipationScore m"
    and d: "decentralization (calculateCategoryScores m) = calculateDecentralizationScore m"
    and a: "activity (calculateCategoryScores m) = calculateActivityScore m"
    and t: "transparency (calculateCategoryScores m) = calculateTransparencyScore m"
    and s: "stability (calculateCategoryScores m) = calculateStabilityScore m"
    by (simp_all add: calculateCategoryScores_def)
  show ?thesis
    unfolding p d a t s
    by (intro conjI participation_range [OF assms(3) assms(5) assms(11)]
      decentralization_range [OF assms(4) assms(5)]
      activity_range [OF assms(1) assms(2) assms(6) assms(7)]
      transparency_range
      stability_range [OF assms(6) assms(7) assms(9) assms(10) assms(8)])
qed

theorem C1_scores_in_range_witness:
  "0 \<le> totalProposals (scenarioA ''Uniswap'' ''UNI'')
   \<and> proposalSuccessRate (scenarioA ''Uniswap'' ''UNI'') \<le> 100
   \<and> treasuryHealth (scenarioA ''Uniswap'' ''UNI'') \<le> 100
   \<and> participation (calculateCategoryScores (scenarioA ''Uniswap'' ''UNI'')) = Finite 65
   \<and> (\<exists>v. participation (calculateCategoryScores (scenarioA ''Uniswap'' ''UNI'')) = Finite v
          \<and> v \<in> \<int> \<and> 0 \<le> v \<and> v \<le> 100)
   \<and> (\<exists>v. activity (calculateCategoryScores (scenarioA ''Uniswap'' ''UNI'')) = Finite v
          \<and> v \<in> \<int> \<and> 0 \<le> v \<and> v \<le> 100)
   \<and> (\<exists>v. stability (calculateCategoryScores (scenarioA ''Uniswap'' ''UNI'')) = Finite v
          \<and> v \<in> \<int> \<and> 0 \<le> v \<and> v \<le> 100)"
proof -
  have h: "0 \<le> totalProposals (scenarioA ''Uniswap'' ''UNI'')"
    "0 \<le> activeProposals (scenarioA ''Uniswap'' ''UNI'')"
    "0 \<le> avgVoterTurnout (scenarioA ''Uniswap'' ''UNI'')"
    "0 \<le> tokenConcentration (scenarioA ''Uniswap'' ''UNI'')"
    "0 \<le> delegateActivity (scenarioA ''Uniswap'' ''UNI'')"
    "0 \<le> proposalSuccessRate (scenarioA ''Uniswap'' ''UNI'')"
    "proposalSuccessRate (scenarioA ''Uniswap'' ''UNI'') \<le> 100"
    "0 \<le> avgProposalDuration (scenarioA ''Uniswap'' ''UNI'')"
    "0 \<le> treasuryHealth (scenarioA ''Uniswap'' ''UNI'')"
    "treasuryHealth (scenarioA ''Uniswap'' ''UNI'') \<le> 100"
    "0 \<le> communityEngagement (scenarioA ''Uniswap'' ''UNI'')"
    by (simp_all add: scenarioA_def)
  have v: "participation (calculateCategoryScores (scenarioA ''Uniswap'' ''UNI'')) = Finite 65"
    by (simp add: scenarioA_scores)
  from C1_scores_in_range [OF h] h v show ?thesis by blast
qed

section \<open>Transparency score\<close>

text \<open>
  Claim C10.  The transparency score is one of the four values 46, 58, 64 and 76, chosen by
  the two tests \<open>totalProposals > 10\<close> and \<open>avgProposalDuration > 3\<close>; so it lies in
  [46, 76] and is never 0 or 100, whatever the input.
\<close>

theorem C10_transparency_values:
  "calculateTransparencyScore m =
     Finite (if totalProposals m > 10 then (if avgProposalDuration m > 3 then 76 else 64)
      else (if avgProposalDuration m > 3 then 58 else 46))
   \<and> (calculateTransparencyScore m = Finite 46 \<or> calculateTransparencyScore m = Finite 58
      \<or> calculateTransparencyScore m = Finite 64 \<or> calculateTransparencyScore m = Finite 76)
   \<and> jle (Finite 46) (calculateTransparencyScore m)
   \<and> jle (calculateTransparencyScore m) (Finite 76)
   \<and> calculateTransparencyScore m \<noteq> Finite 0 \<and> calculateTransparencyScore m \<noteq> Finite 100
   \<and> transparency (calculateCategoryScores m) = calculateTransparencyScore m"
  by (simp add: transparency_value calculateCategoryScores_def)

section \<open>Participation score\<close>

text \<open>
  Claim C7.  Raising \<open>avgVoterTurnout\<close> and leaving every other field as it is never lowers
  the participation score; from a turnout of 50 on the turnout term has reached its cap of
  100 and the score no longer changes.
\<close>

theorem C7_participation_monotone:
  assumes "avgVoterTurnout m < t'"
  shows "jle (calculateParticipationScore m)
       (calculateParticipationScore (m\<lparr>avgVoterTurnout := t'\<rparr>))
     \<and> jle (participation (calculateCategoryScores m))
         (participation (calculateCategoryScores (m\<lparr>avgVoterTurnout := t'\<rparr>)))
     \<and> (50 \<le> avgVoterTurnout m \<longrightarrow>
          calculateParticipationScore (m\<lparr>avgVoterTurnout := t'\<rparr>)
            = calculateParticipationScore m)"
proof -
  have "jle (Finite (avgVoterTurnout m)) (Finite t')" using assms by simp
  then have "jle (jmul (Finite (avgVoterTurnout m)) (lit 2)) (jmul (Finite t') (lit 2))"
    unfolding lit_ints by (rule jmul_mono) simp
  then have a: "jle (Math_min (lit 100) (jmul (Finite (avgVoterTurnout m)) (lit 2)))
      (Math_min (lit 100) (jmul (Finite t') (lit 2)))"
    unfolding lit_ints(12) by (rule Math_min_mono)
  have mono: "jle (calculateParticipationScore m)
      (calculateParticipationScore (m\<lparr>avgVoterTurnout := t'\<rparr>))"
    unfolding calculateParticipationScore_def Let_def
    using participation_sum_mono [OF a capped_product_upper capped_upper capped_upper]
    by simp
  have sat: "calculateParticipationScore (m\<lparr>avgVoterTurnout := t'\<rparr>)
      = calculateParticipationScore m" if "50 \<le> avgVoterTurnout m"
  proof -
    have sat1: "Math_min (lit 100) (jmul (Finite x) (lit 2)) = Finite 100" if "50 \<le> x" for x
    proof -
      from that have "100 \<le> x * 2" by simp
      from rounded_mono [OF this] show ?thesis
        unfolding lit_ints by (intro Math_min_saturated) (simp add: rounded_consts)
    qed
    from that assms have "50 \<le> t'" by simp
    then show ?thesis
      unfolding calculateParticipationScore_def Let_def
      by (simp add: sat1 [OF that] sat1 [OF \<open>50 \<le> t'\<close>])
  qed
  from mono sat show ?thesis by (simp add: calculateCategoryScores_def)
qed

text \<open>
  Scenario B with the turnout raised from 5 to 10 (score 9 to 13), and scenario A with the
  turnout raised from 60 to 90, which is beyond the cap and leaves the score as it is.
\<close>

theorem C7_participation_monotone_witness:
  "avgVoterTurnout (scenarioB ''Compound'' ''COMP'') < 10
   \<and> calculateParticipationScore (scenarioB ''Compound'' ''COMP'') = Finite 9
   \<and> calculateParticipationScore ((scenarioB ''Compound'' ''COMP'')\<lparr>avgVoterTurnout := 10\<rparr>)
       = Finite 13
   \<and> jle (calculateParticipationScore (scenarioB ''Compound'' ''COMP''))
       (calculateParticipationScore ((scenarioB ''Compound'' ''COMP'')\<lparr>avgVoterTurnout := 10\<rparr>))
   \<and> calculateParticipationScore ((scenarioA ''Uniswap'' ''UNI'')\<lparr>avgVoterTurnout := 60\<rparr>)
       = calculateParticipationScore ((scenarioA ''Uniswap'' ''UNI'')\<lparr>avgVoterTurnout := 90\<rparr>)"
proof -
  have h: "avgVoterTurnout (scenarioB ''Compound'' ''COMP'') < 10"
    by (simp add: scenarioB_def)
  have h': "avgVoterTurnout ((scenarioA ''Uniswap'' ''UNI'')\<lparr>avgVoterTurnout := 60\<rparr>) < 90"
    "50 \<le> avgVoterTurnout ((scenarioA ''Uniswap'' ''UNI'')\<lparr>avgVoterTurnout := 60\<rparr>)"
    by simp_all
  have v: "calculateParticipationScore (scenarioB ''Compound'' ''COMP'') = Finite 9"
    "calculateParticipationScore ((scenarioB ''Compound'' ''COMP'')\<lparr>avgVoterTurnout := 10\<rparr>)
       = Finite 13"
    by (simp_all add: scorer_defs scenarioB_def eval_simps)
  from C7_participation_monotone [OF h] C7_participation_monotone [OF h'(1)] h h'(2) v
  show ?thesis by simp
qed

text \<open>
  Claim C4.  As stated (the participation score equals
  round(0.4 clamp(turnout * 2) + 0.3 clamp(delegateActivity) + 0.3 clamp(communityEngagement))
  with \<open>clamp(x) = min(100, max(0, x))\<close>, for every input) the claim fails: the code applies
  \<open>Math.min(100, x)\<close> only.  With a turnout of -100 and the other two metrics 0 the code
  returns -80 and the formula 0.  Read in exact arithmetic the formula fails on
  non-negative metrics as well: for turnout 0, delegate activity 1 and community
  engagement 24 its exact value is round(7.5) = 8, and the code, which adds binary64
  products, returns 7.
\<close>

lemma tie_scores:
  "calculateParticipationScore tie_metrics = Finite 7"
  "participation_spec tie_metrics = Finite 7"
  by (simp_all add: calculateParticipationScore_def participation_spec_def clamp_def
      tie_metrics_def Math_min_def Math_max_def lit_ints lit_fractions eval_simps)

theorem C4_counterexample:
  "calculateParticipationScore adversarial_metrics = Finite (- 80)
   \<and> participation_spec adversarial_metrics = Finite 0
   \<and> calculateParticipationScore adversarial_metrics \<noteq> participation_spec adversarial_metrics
   \<and> calculateParticipationScore tie_metrics = Finite 7
   \<and> real_of_int \<lfloor>0.4 * min 100 (max 0 (avgVoterTurnout tie_metrics * 2))
        + 0.3 * min 100 (max 0 (delegateActivity tie_metrics))
        + 0.3 * min 100 (max 0 (communityEngagement tie_metrics)) + 1 / 2\<rfloor> = 8"
proof -
  have a: "calculateParticipationScore adversarial_metrics = Finite (- 80)"
    "participation_spec adversarial_metrics = Finite 0"
    by (simp_all add: calculateParticipationScore_def participation_spec_def clamp_def
        adversarial_metrics_def Math_min_def Math_max_def lit_ints lit_fractions eval_simps)
  have e: "real_of_int \<lfloor>0.4 * min 100 (max 0 (avgVoterTurnout tie_metrics * 2))
        + 0.3 * min 100 (max 0 (delegateActivity tie_metrics))
        + 0.3 * min 100 (max 0 (communityEngagement tie_metrics)) + 1 / 2\<rfloor> = 8"
    by (simp add: tie_metrics_def)
  from a tie_scores(1) e show ?thesis by simp
qed

text \<open>
  Claim C4, amended.  For every metrics record the participation score is
  round(0.4 min(100, turnout * 2) + 0.3 min(100, delegateActivity)
  + 0.3 min(100, communityEngagement)), every product and sum being a binary64 operation,
  performed left to right: each term is capped at 100 and not floored at 0.
  Whenever \<open>avgVoterTurnout\<close>, \<open>delegateActivity\<close> and \<open>communityEngagement\<close> are
  non-negative, this is the formula of the claim, evaluated in the same way.
\<close>

lemma clamp_nonneg:
  assumes "jle (Finite 0) a"
  shows "clamp a = Math_min (lit 100) a"
  unfolding clamp_def by (simp only: Math_max_0_nonneg [OF assms])

theorem C4_participation_formula:
  "calculateParticipationScore m =
     Math_round
       (jadd (jadd (jmul (lit 0.4) (Math_min (lit 100) (jmul (Finite (avgVoterTurnout m)) (lit 2))))
                (jmul (lit 0.3) (Math_min (lit 100) (Finite (delegateActivity m)))))
          (jmul (lit 0.3) (Math_min (lit 100) (Finite (communityEngagement m)))))
   \<and> (0 \<le> avgVoterTurnout m \<and> 0 \<le> delegateActivity m \<and> 0 \<le> communityEngagement m
      \<longrightarrow> calculateParticipationScore m = participation_spec m)"
proof
  show f: "calculateParticipationScore m =
     Math_round
       (jadd (jadd (jmul (lit 0.4) (Math_min (lit 100) (jmul (Finite (avgVoterTurnout m)) (lit 2))))
                (jmul (lit 0.3) (Math_min (lit 100) (Finite (delegateActivity m)))))
          (jmul (lit 0.3) (Math_min (lit 100) (Finite (communityEngagement m)))))"
    unfolding calculateParticipationScore_def Let_def
    by (simp only: jmul_commute [of "lit 0.4"] jmul_commute [of "lit 0.3"])
  show "0 \<le> avgVoterTurnout m \<and> 0 \<le> delegateActivity m \<and> 0 \<le> communityEngagement m
      \<longrightarrow> calculateParticipationScore m = participation_spec m"
  proof
    assume h: "0 \<le> avgVoterTurnout m \<and> 0 \<le> delegateActivity m \<and> 0 \<le> communityEngagement m"
    then have "jle (Finite 0) (jmul (Finite (avgVoterTurnout m)) (lit 2))"
      by (intro metric_times_nonneg [OF _ lit_ints(2)]) simp_all
    then have t: "clamp (jmul (Finite (avgVoterTurnout m)) (lit 2))
        = Math_min (lit 100) (jmul (Finite (avgVoterTurnout m)) (lit 2))"
      by (rule clamp_nonneg)
    from h have d: "clamp (Finite (delegateActivity m))
        = Math_min (lit 100) (Finite (delegateActivity m))"
      and e: "clamp (Finite (communityEngagement m))
        = Math_min (lit 100) (Finite (communityEngagement m))"
      by (simp_all add: clamp_nonneg)
    show "calculateParticipationScore m = participation_spec m"
      unfolding participation_spec_def t d e by (rule f)
  qed
qed

theorem C4_participation_formula_witness:
  "0 \<le> avgVoterTurnout (scenarioB ''Compound'' ''COMP'')
   \<and> 0 \<le> delegateActivity (scenarioB ''Compound'' ''COMP'')
   \<and> 0 \<le> communityEngagement (scenarioB ''Compound'' ''COMP'')
   \<and> calculateParticipationScore (scenarioB ''Compound'' ''COMP'')
       = participation_spec (scenarioB ''Compound'' ''COMP'')
   \<and> participation_spec (scenarioB ''Compound'' ''COMP'') = Finite 9"
proof -
  have h: "0 \<le> avgVoterTurnout (scenarioB ''Compound'' ''COMP'')
     \<and> 0 \<le> delegateActivity (scenarioB ''Compound'' ''COMP'')
     \<and> 0 \<le> communityEngagement (scenarioB ''Compound'' ''COMP'')"
    by (simp add: scenarioB_def)
  have v: "participation_spec (scenarioB ''Compound'' ''COMP'') = Finite 9"
    by (simp add: participation_spec_def clamp_def scenarioB_def Math_min_def Math_max_def
        lit_ints lit_fractions eval_simps)
  from C4_participation_formula [of "scenarioB ''Compound'' ''COMP''"] h v
  show ?thesis by blast
qed

section \<open>Overall score\<close>

lemma weights_values:
  "weights ''participation'' = Some (lit 0.25)"
  "weights ''decentralization'' = Some (lit 0.25)"
  "weights ''activity'' = Some (lit 0.20)"
  "weights ''transparency'' = Some (lit 0.15)"
  "weights ''stability'' = Some (lit 0.15)"
  unfolding weights_def by simp_all

lemma weighted_add_Some:
  "weights k = Some w \<Longrightarrow> weighted_add tot (k, v) = jadd tot (jmul v w)"
  by (simp add: weighted_add_def)

lemma overall_five:
  assumes "weights k1 = Some w1" "weights k2 = Some w2" "weights k3 = Some w3"
    "weights k4 = Some w4" "weights k5 = Some w5"
  shows "calculateOverallScore [(k1, v1), (k2, v2), (k3, v3), (k4, v4), (k5, v5)] =
     Math_round
       (jadd (jadd (jadd (jadd (jmul v1 w1) (jmul v2 w2)) (jmul v3 w3)) (jmul v4 w4))
          (jmul v5 w5))"
  unfolding calculateOverallScore_def reduce.simps lit_ints
    weighted_add_Some [OF assms(1)] weighted_add_Some [OF assms(2)]
    weighted_add_Some [OF assms(3)] weighted_add_Some [OF assms(4)]
    weighted_add_Some [OF assms(5)] jadd_zero_left ..

lemma overall_canonical:
  "calculateOverallScore
     [(''participation'', P), (''decentralization'', D), (''activity'', A),
      (''transparency'', T), (''stability'', S)] = overall_spec P D A T S"
  unfolding overall_five [OF weights_values] overall_spec_def
  by (simp only: jmul_commute)

lemma overall_example:
  "overall_spec (Finite 0) (Finite 6) (Finite 0) (Finite 46) (Finite 14) = Finite 10"
  unfolding overall_spec_def by (simp add: lit_fractions eval_simps)

lemma overall_example_reversed:
  "calculateOverallScore
     [(''stability'', Finite 14), (''transparency'', Finite 46), (''activity'', Finite 0),
      (''decentralization'', Finite 6), (''participation'', Finite 0)] = Finite 11"
  unfolding overall_five [OF weights_values(5,4,3,2,1)]
  by (simp add: lit_fractions eval_simps)

text \<open>
  Claim C2.  As stated (for every object with exactly the five keys the result is
  round(0.25 P + 0.25 D + 0.20 A + 0.15 T + 0.15 S)) the claim fails.  The code adds the
  binary64 products in the order of the object's keys.  For the scores 0, 6, 0, 46 and 14
  the exact weighted sum is 10.5 and rounds to 11, but the object with the keys in the
  order of \<open>calculateCategoryScores\<close> gives 10 (the binary64 sum is just below 10.5),
  and the object with the same five entries in the reverse order gives 11: the result
  depends on the key order, and the formula read left to right in binary64 gives 10.
\<close>

theorem C2_counterexample:
  "calculateOverallScore
     [(''participation'', Finite 0), (''decentralization'', Finite 6), (''activity'', Finite 0),
      (''transparency'', Finite 46), (''stability'', Finite 14)] = Finite 10
   \<and> real_of_int \<lfloor>0.25 * 0 + 0.25 * 6 + 0.20 * 0 + 0.15 * 46 + 0.15 * 14 + 1 / 2 :: real\<rfloor> = 11
   \<and> calculateOverallScore
     [(''stability'', Finite 14), (''transparency'', Finite 46), (''activity'', Finite 0),
      (''decentralization'', Finite 6), (''participation'', Finite 0)] = Finite 11
   \<and> overall_spec (Finite 0) (Finite 6) (Finite 0) (Finite 46) (Finite 14) = Finite 10"
  by (simp add: overall_canonical overall_example overall_example_reversed)

text \<open>
  Claim C2, amended.  For the object whose keys are, in order, \<open>participation\<close>,
  \<open>decentralization\<close>, \<open>activity\<close>, \<open>transparency\<close> and \<open>stability\<close> (the object that
  \<open>calculateCategoryScores\<close> builds), \<open>calculateOverallScore\<close> returns
  round(0.25 P + 0.25 D + 0.20 A + 0.15 T + 0.15 S) with every product and sum a binary64
  operation, performed left to right, and one rounding to an integer, of the final sum.
  For five weighted keys in any other order the products are added in that order.
\<close>

theorem C2_overall_score:
  "calculateOverallScore
     [(''participation'', P), (''decentralization'', D), (''activity'', A),
      (''transparency'', T), (''stability'', S)] = overall_spec P D A T S
   \<and> calculateOverallScore (Object_entries c) =
       overall_spec (participation c) (decentralization c) (activity c) (transparency c)
         (stability c)
   \<and> (weights k1 = Some w1 \<and> weights k2 = Some w2 \<and> weights k3 = Some w3
        \<and> weights k4 = Some w4 \<and> weights k5 = Some w5
      \<longrightarrow> calculateOverallScore [(k1, v1), (k2, v2), (k3, v3), (k4, v4), (k5, v5)] =
           Math_round
             (jadd (jadd (jadd (jadd (jmul v1 w1) (jmul v2 w2)) (jmul v3 w3)) (jmul v4 w4))
                (jmul v5 w5)))"
  using overall_five [of k1 w1 k2 w2 k3 w3 k4 w4 k5 w5 v1 v2 v3 v4 v5]
  by (simp add: overall_canonical Object_entries_def)

text \<open>
  The reversed object of the counterexample, and the object with every score 50, whose
  result is 50 (rounding each product first would give 13 + 13 + 10 + 8 + 8 = 52).
\<close>

theorem C2_overall_score_witness:
  "weights ''stability'' = Some (lit 0.15) \<and> weights ''transparency'' = Some (lit 0.15)
   \<and> weights ''activity'' = Some (lit 0.20) \<and> weights ''decentralization'' = Some (lit 0.25)
   \<and> weights ''participation'' = Some (lit 0.25)
   \<and> calculateOverallScore
       [(''stability'', Finite 14), (''transparency'', Finite 46), (''activity'', Finite 0),
        (''decentralization'', Finite 6), (''participation'', Finite 0)] =
      Math_round
        (jadd (jadd (jadd (jadd (jmul (Finite 14) (lit 0.15)) (jmul (Finite 46) (lit 0.15)))
                       (jmul (Finite 0) (lit 0.20)))
                 (jmul (Finite 6) (lit 0.25)))
           (jmul (Finite 0) (lit 0.25)))
   \<and> calculateOverallScore
       [(''participation'', Finite 50), (''decentralization'', Finite 50),
        (''activity'', Finite 50), (''transparency'', Finite 50), (''stability'', Finite 50)]
      = overall_spec (Finite 50) (Finite 50) (Finite 50) (Finite 50) (Finite 50)
   \<and> overall_spec (Finite 50) (Finite 50) (Finite 50) (Finite 50) (Finite 50) = Finite 50"
proof -
  have fifty: "overall_spec (Finite 50) (Finite 50) (Finite 50) (Finite 50) (Finite 50)
      = Finite 50"
    unfolding overall_spec_def by (simp add: lit_fractions eval_simps)
  from C2_overall_score [of "Finite 50" "Finite 50" "Finite 50" "Finite 50" "Finite 50" _
      "''stability''" "lit 0.15" "''transparency''" "lit 0.15" "''activity''" "lit 0.20"
      "''decentralization''" "lit 0.25" "''participation''" "lit 0.25"
      "Finite 14" "Finite 46" "Finite 0" "Finite 6" "Finite 0"]
    weights_values fifty
  show ?thesis by blast
qed

section \<open>Risk detection\<close>

lemma identifyRisks_rules:
  "identifyRisks m cs =
      (if avgVoterTurnout m < 10 then [participation_risk] else [])
    @ (if tokenConcentration m > 70 then [centralization_risk] else [])
    @ (if totalProposals m < 5 then [activity_risk] else [])
    @ (if proposalSuccessRate m < 30 then [stability_risk] else [])
    @ (if delegateActivity m < 20 then [delegation_risk] else [])"
  by (simp add: identifyRisks_def push_def)

lemma risk_labels:
  "(type participation_risk, category participation_risk) = (HIGH, ''Participation'')"
  "(type centralization_risk, category centralization_risk) = (HIGH, ''Centralization'')"
  "(type activity_risk, category activity_risk) = (MEDIUM, ''Activity'')"
  "(type stability_risk, category stability_risk) = (HIGH, ''Stability'')"
  "(type delegation_risk, category delegation_risk) = (MEDIUM, ''Delegation'')"
  by (simp_all add: participation_risk_def centralization_risk_def activity_risk_def
      stability_risk_def delegation_risk_def)

lemma risk_types:
  "type participation_risk = HIGH" "type centralization_risk = HIGH"
  "type activity_risk = MEDIUM" "type stability_risk = HIGH" "type delegation_risk = MEDIUM"
  by (simp_all add: participation_risk_def centralization_risk_def activity_risk_def
      stability_risk_def delegation_risk_def)

lemma scenarioB_risks:
  "identifyRisks (scenarioB n s) cs =
     [participation_risk, centralization_risk, activity_risk, stability_risk, delegation_risk]"
  by (simp add: identifyRisks_rules scenarioB_def)

lemma scenarioA_risks: "identifyRisks (scenarioA n s) cs = []"
  by (simp add: identifyRisks_rules scenarioA_def)

text \<open>
  Claim C3.  For every metrics record (and whatever is passed as category scores)
  \<open>identifyRisks\<close> returns, in the order of the rules, the Participation risk (HIGH) iff
  \<open>avgVoterTurnout < 10\<close>, the Centralization risk (HIGH) iff \<open>tokenConcentration > 70\<close>,
  the Activity risk (MEDIUM) iff \<open>totalProposals < 5\<close>, the Stability risk (HIGH) iff
  \<open>proposalSuccessRate < 30\<close> and the Delegation risk (MEDIUM) iff \<open>delegateActivity < 20\<close>,
  and nothing else; every rule is evaluated.  The first conjunct gives the list of
  (type, category) labels, the second the full records.
\<close>

theorem C3_identifyRisks:
  "map (\<lambda>r. (type r, category r)) (identifyRisks m cs) =
      (if avgVoterTurnout m < 10 then [(HIGH, ''Participation'')] else [])
    @ (if tokenConcentration m > 70 then [(HIGH, ''Centralization'')] else [])
    @ (if totalProposals m < 5 then [(MEDIUM, ''Activity'')] else [])
    @ (if proposalSuccessRate m < 30 then [(HIGH, ''Stability'')] else [])
    @ (if delegateActivity m < 20 then [(MEDIUM, ''Delegation'')] else [])
   \<and> identifyRisks m cs =
      (if avgVoterTurnout m < 10 then [participation_risk] else [])
    @ (if tokenConcentration m > 70 then [centralization_risk] else [])
    @ (if totalProposals m < 5 then [activity_risk] else [])
    @ (if proposalSuccessRate m < 30 then [stability_risk] else [])
    @ (if delegateActivity m < 20 then [delegation_risk] else [])"
proof
  show "identifyRisks m cs =
      (if avgVoterTurnout m < 10 then [participation_risk] else [])
    @ (if tokenConcentration m > 70 then [centralization_risk] else [])
    @ (if totalProposals m < 5 then [activity_risk] else [])
    @ (if proposalSuccessRate m < 30 then [stability_risk] else [])
    @ (if delegateActivity m < 20 then [delegation_risk] else [])"
    by (rule identifyRisks_rules)
  show "map (\<lambda>r. (type r, category r)) (identifyRisks m cs) =
      (if avgVoterTurnout m < 10 then [(HIGH, ''Participation'')] else [])
    @ (if tokenConcentration m > 70 then [(HIGH, ''Centralization'')] else [])
    @ (if totalProposals m < 5 then [(MEDIUM, ''Activity'')] else [])
    @ (if proposalSuccessRate m < 30 then [(HIGH, ''Stability'')] else [])
    @ (if delegateActivity m < 20 then [(MEDIUM, ''Delegation'')] else [])"
    unfolding identifyRisks_rules by (simp add: risk_labels)
qed

text \<open>
  The boundary of the first rule: a turnout of exactly 10 raises no risk in scenario A,
  a turnout of 9.999 raises the Participation risk and no other.
\<close>

theorem C3_identifyRisks_boundary:
  "identifyRisks ((scenarioA ''Uniswap'' ''UNI'')\<lparr>avgVoterTurnout := 10\<rparr>) () = []
   \<and> identifyRisks ((scenarioA ''Uniswap'' ''UNI'')\<lparr>avgVoterTurnout := 9.999\<rparr>) ()
       = [participation_risk]
   \<and> map (\<lambda>r. (type r, category r))
       (identifyRisks ((scenarioA ''Uniswap'' ''UNI'')\<lparr>avgVoterTurnout := 9.999\<rparr>) ())
       = [(HIGH, ''Participation'')]"
  using C3_identifyRisks [of "(scenarioA ''Uniswap'' ''UNI'')\<lparr>avgVoterTurnout := 10\<rparr>" "()"]
    C3_identifyRisks [of "(scenarioA ''Uniswap'' ''UNI'')\<lparr>avgVoterTurnout := 9.999\<rparr>" "()"]
  by (simp add: scenarioA_def participation_risk_def)

section \<open>Recommendations\<close>

text \<open>
  Claim C5.  For every metrics record and risk list, \<open>generateRecommendations\<close> returns
  exactly the recommendations whose conditions hold, in the fixed order:
  \<open>avgVoterTurnout < 20\<close>, \<open>tokenConcentration > 50\<close>, \<open>delegateActivity < 30\<close>, at least one
  risk of type HIGH in the list, \<open>proposalSuccessRate < 40\<close>.  When no condition holds the
  result is the empty list (the function always returns a list).
\<close>

theorem C5_generateRecommendations:
  "generateRecommendations m rs =
      (if avgVoterTurnout m < 20
       then [''Consider implementing voter incentive programs to increase participation'']
       else [])
    @ (if tokenConcentration m > 50
       then [''Token distribution is concentrated - diversification would improve governance health'']
       else [])
    @ (if delegateActivity m < 30
       then [''Delegate engagement is low - consider delegate recognition programs'']
       else [])
    @ (if length (filter (\<lambda>r. type r = HIGH) rs) > 0
       then [''Address high-priority risks immediately to improve governance stability'']
       else [])
    @ (if proposalSuccessRate m < 40
       then [''Low proposal success rate indicates potential consensus issues'']
       else [])
   \<and> (\<not> avgVoterTurnout m < 20 \<and> \<not> tokenConcentration m > 50 \<and> \<not> delegateActivity m < 30
        \<and> \<not> length (filter (\<lambda>r. type r = HIGH) rs) > 0 \<and> \<not> proposalSuccessRate m < 40
      \<longrightarrow> generateRecommendations m rs = [])"
  by (simp add: generateRecommendations_def push_def)

text \<open>
  Scenario A, with the risks the detector finds for it (none): no recommendation.
  Scenario B with its five risks: all five recommendations, in order.
\<close>

theorem C5_generateRecommendations_witness:
  "\<not> avgVoterTurnout (scenarioA ''Uniswap'' ''UNI'') < 20
   \<and> \<not> tokenConcentration (scenarioA ''Uniswap'' ''UNI'') > 50
   \<and> \<not> delegateActivity (scenarioA ''Uniswap'' ''UNI'') < 30
   \<and> \<not> length (filter (\<lambda>r. type r = HIGH) (identifyRisks (scenarioA ''Uniswap'' ''UNI'') ())) > 0
   \<and> \<not> proposalSuccessRate (scenarioA ''Uniswap'' ''UNI'') < 40
   \<and> generateRecommendations (scenarioA ''Uniswap'' ''UNI'')
        (identifyRisks (scenarioA ''Uniswap'' ''UNI'') ()) = []
   \<and> generateRecommendations (scenarioB ''Compound'' ''COMP'')
        (identifyRisks (scenarioB ''Compound'' ''COMP'') ()) =
       [''Consider implementing voter incentive programs to increase participation'',
        ''Token distribution is concentrated - diversification would improve governance health'',
        ''Delegate engagement is low - consider delegate recognition programs'',
        ''Address high-priority risks immediately to improve governance stability'',
        ''Low proposal success rate indicates potential consensus issues'']"
proof -
  have a: "\<not> avgVoterTurnout (scenarioA ''Uniswap'' ''UNI'') < 20
     \<and> \<not> tokenConcentration (scenarioA ''Uniswap'' ''UNI'') > 50
     \<and> \<not> delegateActivity (scenarioA ''Uniswap'' ''UNI'') < 30
     \<and> \<not> length (filter (\<lambda>r. type r = HIGH) (identifyRisks (scenarioA ''Uniswap'' ''UNI'') ())) > 0
     \<and> \<not> proposalSuccessRate (scenarioA ''Uniswap'' ''UNI'') < 40"
    unfolding scenarioA_risks by (simp add: scenarioA_def)
  have b: "avgVoterTurnout (scenarioB ''Compound'' ''COMP'') < 20"
    "tokenConcentration (scenarioB ''Compound'' ''COMP'') > 50"
    "delegateActivity (scenarioB ''Compound'' ''COMP'') < 30"
    "length (filter (\<lambda>r. type r = HIGH) (identifyRisks (scenarioB ''Compound'' ''COMP'') ())) > 0"
    "proposalSuccessRate (scenarioB ''Compound'' ''COMP'') < 40"
    unfolding scenarioB_risks by (simp_all add: scenarioB_def risk_types)
  from C5_generateRecommendations
    [of "scenarioA ''Uniswap'' ''UNI''" "identifyRisks (scenarioA ''Uniswap'' ''UNI'') ()"] a
  have ra: "generateRecommendations (scenarioA ''Uniswap'' ''UNI'')
        (identifyRisks (scenarioA ''Uniswap'' ''UNI'') ()) = []"
    by blast
  from C5_generateRecommendations
    [of "scenarioB ''Compound'' ''COMP''" "identifyRisks (scenarioB ''Compound'' ''COMP'') ()"]
  have rb: "generateRecommendations (scenarioB ''Compound'' ''COMP'')
        (identifyRisks (scenarioB ''Compound'' ''COMP'') ()) =
       [''Consider implementing voter incentive programs to increase participation'',
        ''Token distribution is concentrated - diversification would improve governance health'',
        ''Delegate engagement is low - consider delegate recognition programs'',
        ''Address high-priority risks immediately to improve governance stability'',
        ''Low proposal success rate indicates potential consensus issues'']"
    by (simp only: b if_True append_Cons append_Nil)
  from a ra rb show ?thesis by blast
qed

section \<open>Risk level\<close>

lemma high_count:
  "length (filter (\<lambda>r. type r = HIGH) (identifyRisks m cs)) =
      (if avgVoterTurnout m < 10 then 1 else 0)
    + (if tokenConcentration m > 70 then 1 else 0)
    + (if proposalSuccessRate m < 30 then 1 else 0)"
  unfolding identifyRisks_rules by (simp add: risk_types)

lemma medium_count:
  "length (filter (\<lambda>r. type r = MEDIUM) (identifyRisks m cs)) =
      (if totalProposals m < 5 then 1 else 0)
    + (if delegateActivity m < 20 then 1 else 0)"
  unfolding identifyRisks_rules by (simp add: risk_types)

lemma risk_count:
  "length (identifyRisks m cs) =
     length (filter (\<lambda>r. type r = HIGH) (identifyRisks m cs))
     + length (filter (\<lambda>r. type r = MEDIUM) (identifyRisks m cs))"
  unfolding identifyRisks_rules by (simp add: risk_types)

lemma risk_level_strings:
  "''CRITICAL'' \<noteq> ''MEDIUM''" "''HIGH'' \<noteq> ''MEDIUM''" "''LOW'' \<noteq> ''MEDIUM''"
  by simp_all

text \<open>
  Claim C9.  The risk level computed from the list that \<open>identifyRisks\<close> produces is never
  MEDIUM: the list holds at most three HIGH and at most two MEDIUM risks and no others, so
  a list of more than three risks contains a HIGH one; the level is CRITICAL, HIGH or LOW.
\<close>

theorem C9_never_medium:
  "getRiskLevel (identifyRisks m cs) \<noteq> ''MEDIUM''
   \<and> (getRiskLevel (identifyRisks m cs) = ''CRITICAL''
      \<or> getRiskLevel (identifyRisks m cs) = ''HIGH''
      \<or> getRiskLevel (identifyRisks m cs) = ''LOW'')
   \<and> length (filter (\<lambda>r. type r = HIGH) (identifyRisks m cs)) \<le> 3
   \<and> length (filter (\<lambda>r. type r = MEDIUM) (identifyRisks m cs)) \<le> 2
   \<and> (3 < length (identifyRisks m cs)
      \<longrightarrow> 0 < length (filter (\<lambda>r. type r = HIGH) (identifyRisks m cs)))"
proof -
  have hi: "length (filter (\<lambda>r. type r = HIGH) (identifyRisks m cs)) \<le> 3"
    unfolding high_count by simp
  have me: "length (filter (\<lambda>r. type r = MEDIUM) (identifyRisks m cs)) \<le> 2"
    unfolding medium_count by simp
  have many: "0 < length (filter (\<lambda>r. type r = HIGH) (identifyRisks m cs))"
    if "3 < length (identifyRisks m cs)"
    using that me risk_count [of m cs] by linarith
  have lvl: "getRiskLevel (identifyRisks m cs) = ''CRITICAL''
      \<or> getRiskLevel (identifyRisks m cs) = ''HIGH''
      \<or> getRiskLevel (identifyRisks m cs) = ''LOW''"
  proof (cases "0 < length (filter (\<lambda>r. type r = HIGH) (identifyRisks m cs))")
    case True
    then show ?thesis unfolding getRiskLevel_def Let_def by simp
  next
    case False
    with many have "\<not> 3 < length (identifyRisks m cs)" by blast
    with False show ?thesis unfolding getRiskLevel_def Let_def by simp
  qed
  from lvl have "getRiskLevel (identifyRisks m cs) \<noteq> ''MEDIUM''"
    using risk_level_strings by metis
  with lvl hi me many show ?thesis by blast
qed

theorem C9_never_medium_witness:
  "3 < length (identifyRisks (scenarioB ''Compound'' ''COMP'') ())
   \<and> 0 < length (filter (\<lambda>r. type r = HIGH) (identifyRisks (scenarioB ''Compound'' ''COMP'') ()))
   \<and> getRiskLevel (identifyRisks (scenarioB ''Compound'' ''COMP'') ()) \<noteq> ''MEDIUM''"
proof -
  have h: "3 < length (identifyRisks (scenarioB ''Compound'' ''COMP'') ())"
    unfolding scenarioB_risks by simp
  from C9_never_medium [of "scenarioB ''Compound'' ''COMP''" "()"] h
  show ?thesis by blast
qed

section \<open>Scenario B\<close>

text \<open>
  Claim C6.  For the metrics of scenario B (whatever the name and symbol),
  \<open>identifyRisks\<close> returns exactly 5 risks, exactly 3 of them of type HIGH; the risk level
  of that list is CRITICAL; and the overall score computed from the five category scores
  of these metrics (9, 14, 6, 46 and 15) is 16, which is below 40.
\<close>

theorem C6_scenarioB:
  "length (identifyRisks (scenarioB n s) (calculateCategoryScores (scenarioB n s))) = 5
   \<and> length (filter (\<lambda>r. type r = HIGH)
        (identifyRisks (scenarioB n s) (calculateCategoryScores (scenarioB n s)))) = 3
   \<and> getRiskLevel (identifyRisks (scenarioB n s) (calculateCategoryScores (scenarioB n s)))
       = ''CRITICAL''
   \<and> calculateOverallScore (Object_entries (calculateCategoryScores (scenarioB n s)))
       = Finite 16
   \<and> (16 :: real) < 40
   \<and> getInvestmentSignal (Finite 16) = ''AVOID''"
proof -
  have r: "length (identifyRisks (scenarioB n s) (calculateCategoryScores (scenarioB n s))) = 5"
    unfolding scenarioB_risks by simp
  have h: "length (filter (\<lambda>r. type r = HIGH)
        (identifyRisks (scenarioB n s) (calculateCategoryScores (scenarioB n s)))) = 3"
    unfolding scenarioB_risks by (simp add: risk_types)
  have l: "getRiskLevel (identifyRisks (scenarioB n s) (calculateCategoryScores (scenarioB n s)))
       = ''CRITICAL''"
    unfolding getRiskLevel_def Let_def h by simp
  have "overall_spec (Finite 9) (Finite 14) (Finite 6) (Finite 46) (Finite 15) = Finite 16"
    unfolding overall_spec_def by (simp add: lit_fractions eval_simps)
  then have o: "calculateOverallScore (Object_entries (calculateCategoryScores (scenarioB n s)))
       = Finite 16"
    unfolding scenarioB_scores Object_entries_def by (simp add: overall_canonical)
  have g: "getInvestmentSignal (Finite 16) = ''AVOID''"
    by (simp add: getInvestmentSignal_def lit_ints)
  from r h l o g show ?thesis by simp
qed

end
